theory Spec2Isabelle
  imports Complex_Main
begin

section \<open>Patchwork: 2D shapes and the Image container (Shape.h)\<close>

text \<open>
  The development follows the first, documented revision of \<^verbatim>\<open>Shape.h\<close> (the one whose
  \<^verbatim>\<open>Image\<close> derives from \<^verbatim>\<open>Shape\<close> and owns an origin).

  Numbers: a C++ \<^verbatim>\<open>float\<close> is idealised as a \<^typ>\<open>real\<close> (exact arithmetic, no rounding,
  no NaN or infinity) and a C++ \<^verbatim>\<open>int\<close> as an \<^typ>\<open>int\<close>; the conversion from float to
  int truncates toward zero. The theorems that settle a claim state results as the
  expressions the code evaluates, or at values that a float holds exactly; a lemma that
  needs the absence of rounding says so. The mutex of \<^verbatim>\<open>Image\<close> is left out: every
  operation is modelled as running alone.
\<close>

subsection \<open>Vec2 and Color (Maths.h)\<close>

datatype vec2 = Vec2 (vx: real) (vy: real)

datatype color = Color (red: int) (green: int) (blue: int)

text \<open>Modelled from the spec: \<^verbatim>\<open>Maths.h\<close> is not part of the sources. The spec gives Vec2
  as two floats and Color as three components stored as int (above), and Vec2 addition,
  subtraction, scalar multiplication and dot product as the usual component-wise
  operations (below).\<close>

definition vadd :: "vec2 \<Rightarrow> vec2 \<Rightarrow> vec2" where
  "vadd a b = Vec2 (vx a + vx b) (vy a + vy b)"

definition vsub :: "vec2 \<Rightarrow> vec2 \<Rightarrow> vec2" where
  "vsub a b = Vec2 (vx a - vx b) (vy a - vy b)"

definition smul :: "real \<Rightarrow> vec2 \<Rightarrow> vec2" where
  "smul k a = Vec2 (k * vx a) (k * vy a)"

definition dot :: "vec2 \<Rightarrow> vec2 \<Rightarrow> real" where
  "dot a b = vx a * vx b + vy a * vy b"

text \<open>The conversion \<^verbatim>\<open>(int) f\<close> of a float: truncation toward zero.\<close>

definition to_int :: "real \<Rightarrow> int" where
  "to_int f = (if 0 \<le> f then \<lfloor>f\<rfloor> else \<lceil>f\<rceil>)"

subsection \<open>BoundingBox\<close>

record BoundingBox =
  x_max :: int
  x_min :: int
  y_max :: int
  y_min :: int

text \<open>The default constructor: maxima at -10000, minima at 10000.\<close>

definition BoundingBox_new :: BoundingBox where
  "BoundingBox_new = \<lparr>x_max = - 10000, x_min = 10000, y_max = - 10000, y_min = 10000\<rparr>"

subsection \<open>Shape and its four leaf classes\<close>

datatype Derivedtype = CIRCLE | POLYGON | LINE | ELLIPSE | IMAGE | END_ENUM

datatype Functions = ROTATION | HOMOTHETY | TRANSLATE | AXIAL_SYMETRY | CENTRAL_SYMETRY | UNKNOWN

text \<open>The numeric value of an enumerator, as the \<^verbatim>\<open>switch\<close> of \<^verbatim>\<open>deserialize\<close> compares
  them.\<close>

fun Derivedtype_value :: "Derivedtype \<Rightarrow> nat" where
  "Derivedtype_value CIRCLE = 0"
| "Derivedtype_value POLYGON = 1"
| "Derivedtype_value LINE = 2"
| "Derivedtype_value ELLIPSE = 3"
| "Derivedtype_value IMAGE = 4"
| "Derivedtype_value END_ENUM = 5"

fun Functions_value :: "Functions \<Rightarrow> nat" where
  "Functions_value ROTATION = 0"
| "Functions_value HOMOTHETY = 1"
| "Functions_value TRANSLATE = 2"
| "Functions_value AXIAL_SYMETRY = 3"
| "Functions_value CENTRAL_SYMETRY = 4"
| "Functions_value UNKNOWN = 5"

text \<open>A shape is one of the four leaf classes; each carries the colour of its \<^verbatim>\<open>Shape\<close>
  base. Circle: origin, radius. Polygon: points. Line: point, direction. Ellipse: origin,
  radius (as a vector).\<close>

datatype shape =
    Circle vec2 real color
  | Polygon "vec2 list" color
  | Line vec2 vec2 color
  | Ellipse vec2 vec2 color

fun m_type :: "shape \<Rightarrow> Derivedtype" where
  "m_type (Circle _ _ _) = CIRCLE"
| "m_type (Polygon _ _) = POLYGON"
| "m_type (Line _ _ _) = LINE"
| "m_type (Ellipse _ _ _) = ELLIPSE"

fun m_color :: "shape \<Rightarrow> color" where
  "m_color (Circle _ _ c) = c"
| "m_color (Polygon _ c) = c"
| "m_color (Line _ _ c) = c"
| "m_color (Ellipse _ _ c) = c"

subsection \<open>Transformations\<close>

text \<open>The rotation of a point \<open>m\<close> about \<open>p\<close>, with \<open>s\<close> and \<open>c\<close> the values of
  \<^verbatim>\<open>fast_sin(angle)\<close> and \<^verbatim>\<open>fast_cos(angle)\<close>: the six lines that \<^verbatim>\<open>Circle::rotate\<close>,
  \<^verbatim>\<open>Polygon::rotate\<close> and \<^verbatim>\<open>Line::rotate\<close> each repeat.\<close>

definition rotate_point :: "real \<Rightarrow> real \<Rightarrow> vec2 \<Rightarrow> vec2 \<Rightarrow> vec2" where
  "rotate_point s c p m =
     (let lx = vx m - vx p; ly = vy m - vy p
      in Vec2 ((lx * c - ly * s) + vx p) ((lx * s + ly * c) + vy p))"

text \<open>The mirror image of a point \<open>m\<close> across the line through \<open>p\<close> with direction \<open>d\<close>, as
  \<^verbatim>\<open>axialSym\<close> computes it. The division is the one of HOL; with a zero direction the C++
  divides by zero.\<close>

definition mirror_point :: "vec2 \<Rightarrow> vec2 \<Rightarrow> vec2 \<Rightarrow> vec2" where
  "mirror_point p d m =
     (let p1 = vadd p d; w = vsub m p; vl = vsub p1 p;
          b = dot w vl / dot vl vl;
          intersection = vadd p (smul b vl)
      in vadd m (smul 2 (vsub intersection m)))"

fun translate :: "vec2 \<Rightarrow> shape \<Rightarrow> shape" where
  "translate v (Circle origin radius c) = Circle (vadd origin v) radius c"
| "translate v (Polygon points c) = Polygon (map (\<lambda>pt. vadd pt v) points) c"
| "translate v (Line point direction c) = Line (vadd point v) direction c"
| "translate v (Ellipse origin radius c) = Ellipse (vadd origin v) radius c"

text \<open>\<^verbatim>\<open>Polygon::bounding_box\<close>: one sweep over the points, four independent tests each.\<close>

definition bb_sweep :: "BoundingBox \<Rightarrow> vec2 \<Rightarrow> BoundingBox" where
  "bb_sweep bb point =
     (let bb1 = (if vx point < real_of_int (x_min bb) then bb\<lparr>x_min := to_int (vx point)\<rparr> else bb);
          bb2 = (if vx point > real_of_int (x_max bb1) then bb1\<lparr>x_max := to_int (vx point)\<rparr> else bb1);
          bb3 = (if vy point < real_of_int (y_min bb2) then bb2\<lparr>y_min := to_int (vy point)\<rparr> else bb2);
          bb4 = (if vy point > real_of_int (y_max bb3) then bb3\<lparr>y_max := to_int (vy point)\<rparr> else bb3)
      in bb4)"

fun bounding_box :: "shape \<Rightarrow> BoundingBox" where
  "bounding_box (Circle origin radius c) =
     \<lparr>x_max = to_int (vx origin + radius), x_min = to_int (vx origin - radius),
      y_max = to_int (vy origin + radius), y_min = to_int (vy origin - radius)\<rparr>"
| "bounding_box (Polygon points c) = foldl bb_sweep BoundingBox_new points"
| "bounding_box (Line point direction c) =
     (let bb = BoundingBox_new;
          p2 = vadd point direction;
          bb1 = (if vx p2 < vx point
                 then bb\<lparr>x_min := to_int (vx p2), x_max := to_int (vx point)\<rparr> else bb);
          bb2 = (if vy p2 < vy point
                 then bb1\<lparr>y_min := to_int (vy p2), y_max := to_int (vy point)\<rparr> else bb1)
      in bb2)"
| "bounding_box (Ellipse origin radius c) =
     \<lparr>x_max = to_int (vx origin + vx radius), x_min = to_int (vx origin - vx radius),
      y_max = to_int (vy origin + vy radius), y_min = to_int (vy origin - vy radius)\<rparr>"

text \<open>\<^verbatim>\<open>homothety(float ratio)\<close>: about the shape's own centre.\<close>

fun homothety :: "real \<Rightarrow> shape \<Rightarrow> shape" where
  "homothety ratio (Circle origin radius c) = Circle origin (radius * ratio) c"
| "homothety ratio (Polygon points c) =
     (let bb = bounding_box (Polygon points c);
          center = Vec2 (real_of_int (x_max bb) - real_of_int (x_max bb - x_min bb) / 2)
                        (real_of_int (y_max bb) - real_of_int (y_max bb - y_min bb) / 2)
      in Polygon (map (\<lambda>pt. let u = vsub pt center in vadd center (smul ratio u)) points) c)"
| "homothety ratio (Line point direction c) = Line point direction c"
| "homothety ratio (Ellipse origin radius c) = Ellipse origin (smul ratio radius) c"

text \<open>\<^verbatim>\<open>homothety(const Vec2& p, float ratio)\<close>: about the point \<open>p\<close>.\<close>

fun homothety_at :: "vec2 \<Rightarrow> real \<Rightarrow> shape \<Rightarrow> shape" where
  "homothety_at p ratio (Circle origin radius c) =
     (let u = vsub origin p in Circle (vadd p (smul ratio u)) (radius * ratio) c)"
| "homothety_at p ratio (Polygon points c) =
     Polygon (map (\<lambda>pt. let u = vsub pt p in vadd p (smul ratio u)) points) c"
| "homothety_at p ratio (Line point direction c) = Line point direction c"
| "homothety_at p ratio (Ellipse origin radius c) =
     (let u = vsub origin p in Ellipse (vadd p (smul ratio u)) (smul ratio radius) c)"

text \<open>\<^verbatim>\<open>rotate(const Vec2& p, double angle)\<close>, called with a \<open>p\<close> that is stored outside
  the shape, so that it keeps its value during the call. \<^verbatim>\<open>fast_sin\<close> and \<^verbatim>\<open>fast_cos\<close> live
  in \<^verbatim>\<open>Maths.h\<close>, which is not part of the sources: they are the parameters \<open>fsin\<close> and
  \<open>fcos\<close>. The call with any reference, also one into the shape itself, is \<open>rotate_ref\<close>
  below.\<close>

fun rotate_at :: "(real \<Rightarrow> real) \<Rightarrow> (real \<Rightarrow> real) \<Rightarrow> vec2 \<Rightarrow> real \<Rightarrow> shape \<Rightarrow> shape" where
  "rotate_at fsin fcos p angle (Circle origin radius c) =
     Circle (rotate_point (fsin angle) (fcos angle) p origin) radius c"
| "rotate_at fsin fcos p angle (Polygon points c) =
     Polygon (map (rotate_point (fsin angle) (fcos angle) p) points) c"
| "rotate_at fsin fcos p angle (Line m_point m_direction c) =
     (let point = vadd m_point m_direction;
          xy = rotate_point (fsin angle) (fcos angle) p point;
          m_point' = rotate_point (fsin angle) (fcos angle) p m_point
      in Line m_point' (vsub xy m_point') c)"
| "rotate_at fsin fcos p angle (Ellipse origin radius c) = Ellipse origin radius c"

text \<open>The argument \<^verbatim>\<open>const Vec2& p\<close> is a reference. It refers either to a Vec2 outside the
  shape, or to one of the shape's own: the getters \<^verbatim>\<open>origin()\<close>, \<^verbatim>\<open>points()\<close>, \<^verbatim>\<open>point()\<close>,
  \<^verbatim>\<open>direction()\<close> and \<^verbatim>\<open>radius()\<close> of Ellipse return references to the members. \<open>Own i\<close> is
  the \<open>i\<close>-th Vec2 of the shape in the order of \<open>vec2_fields\<close>; reading \<open>p\<close> then gives the
  current value of that member.\<close>

datatype vref = Elsewhere vec2 | Own nat

fun rd :: "vref \<Rightarrow> vec2 list \<Rightarrow> vec2" where
  "rd (Elsewhere v) fs = v"
| "rd (Own i) fs = fs ! i"

fun vec2_fields :: "shape \<Rightarrow> vec2 list" where
  "vec2_fields (Circle m_origin m_radius c) = [m_origin]"
| "vec2_fields (Polygon m_points c) = m_points"
| "vec2_fields (Line m_point m_direction c) = [m_point, m_direction]"
| "vec2_fields (Ellipse m_origin m_radius c) = [m_origin, m_radius]"

text \<open>A reference into the shape exists only for a member the shape has.\<close>

fun refers :: "vref \<Rightarrow> shape \<Rightarrow> bool" where
  "refers (Elsewhere v) sh = True"
| "refers (Own i) sh = (i < length (vec2_fields sh))"

text \<open>The six statements that rotate the \<open>i\<close>-th Vec2 \<open>m\<close> of the shape, one after the other:
  \<^verbatim>\<open>m.x -= p.x; m.y -= p.y; float x = (m.x * c - m.y * s) + p.x;
  float y = (m.x * s + m.y * c) + p.y; m.x = x; m.y = y;\<close> Every read of \<open>p\<close> sees the
  members as they are at that statement.\<close>

definition rotate_in_place :: "real \<Rightarrow> real \<Rightarrow> vref \<Rightarrow> vec2 list \<Rightarrow> nat \<Rightarrow> vec2 list" where
  "rotate_in_place s c p fs i =
     (let fs1 = fs[i := Vec2 (vx (fs ! i) - vx (rd p fs)) (vy (fs ! i))];
          fs2 = fs1[i := Vec2 (vx (fs1 ! i)) (vy (fs1 ! i) - vy (rd p fs1))];
          x = (vx (fs2 ! i) * c - vy (fs2 ! i) * s) + vx (rd p fs2);
          y = (vx (fs2 ! i) * s + vy (fs2 ! i) * c) + vy (rd p fs2)
      in fs2[i := Vec2 x y])"

text \<open>\<^verbatim>\<open>rotate(const Vec2& p, double angle)\<close> for any reference \<open>p\<close>. Circle: the origin in
  place. Polygon: every point in place, in order. Line: a local copy of the second endpoint
  is rotated first, then the point in place, then the direction is recomputed. Ellipse:
  nothing. \<open>None\<close>: \<open>p\<close> is not a reference the program can form.\<close>

fun rotate_ref :: "(real \<Rightarrow> real) \<Rightarrow> (real \<Rightarrow> real) \<Rightarrow> vref \<Rightarrow> real \<Rightarrow> shape \<Rightarrow> shape option" where
  "rotate_ref fsin fcos p angle (Circle m_origin m_radius c) =
     (if \<not> refers p (Circle m_origin m_radius c) then None
      else Some (Circle (rotate_in_place (fsin angle) (fcos angle) p [m_origin] 0 ! 0) m_radius c))"
| "rotate_ref fsin fcos p angle (Polygon m_points c) =
     (if \<not> refers p (Polygon m_points c) then None
      else Some (Polygon (foldl (\<lambda>fs i. rotate_in_place (fsin angle) (fcos angle) p fs i)
                                m_points [0..<length m_points]) c))"
| "rotate_ref fsin fcos p angle (Line m_point m_direction c) =
     (if \<not> refers p (Line m_point m_direction c) then None
      else let fs = [m_point, m_direction];
               point = vadd m_point m_direction;
               point' = Vec2 (vx point - vx (rd p fs)) (vy point - vy (rd p fs));
               s = fsin angle; co = fcos angle;
               x = (vx point' * co - vy point' * s) + vx (rd p fs);
               y = (vx point' * s + vy point' * co) + vy (rd p fs);
               m_point' = rotate_in_place s co p fs 0 ! 0
           in Some (Line m_point' (vsub (Vec2 x y) m_point') c))"
| "rotate_ref fsin fcos p angle (Ellipse m_origin m_radius c) =
     (if \<not> refers p (Ellipse m_origin m_radius c) then None
      else Some (Ellipse m_origin m_radius c))"

text \<open>\<^verbatim>\<open>rotate(float angle)\<close>: nothing for Circle and Ellipse; about (0,0) for Polygon;
  the direction about the point for Line.\<close>

fun rotate_self :: "(real \<Rightarrow> real) \<Rightarrow> (real \<Rightarrow> real) \<Rightarrow> real \<Rightarrow> shape \<Rightarrow> shape" where
  "rotate_self fsin fcos angle (Circle origin radius c) = Circle origin radius c"
| "rotate_self fsin fcos angle (Polygon points c) =
     Polygon (map (\<lambda>pt. let s = fsin angle; co = fcos angle
                         in Vec2 (vx pt * co - vy pt * s) (vx pt * s + vy pt * co)) points) c"
| "rotate_self fsin fcos angle (Line m_point m_direction c) =
     (let p = vsub (vadd m_point m_direction) m_point;
          s = fsin angle; co = fcos angle;
          xy = Vec2 ((vx p * co - vy p * s) + vx m_point) ((vx p * s + vy p * co) + vy m_point)
      in Line m_point (vsub xy m_point) c)"
| "rotate_self fsin fcos angle (Ellipse origin radius c) = Ellipse origin radius c"

fun centralSym :: "vec2 \<Rightarrow> shape \<Rightarrow> shape" where
  "centralSym p (Circle origin radius c) =
     (let t = smul 2 (vsub p origin) in translate t (Circle origin radius c))"
| "centralSym p (Polygon points c) =
     Polygon (map (\<lambda>pt. let t = smul 2 (vsub p pt) in vadd pt t) points) c"
| "centralSym p (Line point direction c) =
     (let t = smul 2 (vsub p point) in translate t (Line point direction c))"
| "centralSym p (Ellipse origin radius c) =
     (let t = smul 2 (vsub p origin) in translate t (Ellipse origin radius c))"

fun axialSym :: "vec2 \<Rightarrow> vec2 \<Rightarrow> shape \<Rightarrow> shape" where
  "axialSym p d (Circle origin radius c) =
     (let p1 = vadd p d; w = vsub origin p; vl = vsub p1 p;
          b = dot w vl / dot vl vl;
          intersection = vadd p (smul b vl)
      in translate (smul 2 (vsub intersection origin)) (Circle origin radius c))"
| "axialSym p d (Polygon points c) = Polygon (map (mirror_point p d) points) c"
| "axialSym p d (Line point direction c) = Line point direction c"
| "axialSym p d (Ellipse origin radius c) =
     (let p1 = vadd p d; w = vsub origin p; vl = vsub p1 p;
          b = dot w vl / dot vl vl;
          intersection = vadd p (smul b vl)
      in translate (smul 2 (vsub intersection origin)) (Ellipse origin radius c))"

subsection \<open>Equality operators\<close>

text \<open>\<^verbatim>\<open>operator==\<close> of the four classes. The equalities of \<^verbatim>\<open>Vec2\<close> and \<^verbatim>\<open>Color\<close> are
  defined in \<^verbatim>\<open>Maths.h\<close>, which is not part of the sources: they are the parameters \<open>veq\<close>
  and \<open>ceq\<close>. Two \<^verbatim>\<open>std::vector<Vec2>\<close> are equal when they have the same size and equal
  elements.\<close>

definition Circle_eq ::
  "(vec2 \<Rightarrow> vec2 \<Rightarrow> bool) \<Rightarrow> (color \<Rightarrow> color \<Rightarrow> bool) \<Rightarrow> vec2 \<times> real \<times> color \<Rightarrow> vec2 \<times> real \<times> color \<Rightarrow> bool" where
  "Circle_eq veq ceq a b =
     (case a of (oa, ra, ca) \<Rightarrow> case b of (ob, rb, cb) \<Rightarrow>
        if veq oa ob \<and> ra = rb \<and> ceq ca cb then True else False)"

definition Polygon_eq ::
  "(vec2 \<Rightarrow> vec2 \<Rightarrow> bool) \<Rightarrow> vec2 list \<times> color \<Rightarrow> vec2 list \<times> color \<Rightarrow> bool" where
  "Polygon_eq veq a b =
     (case a of (pa, ca) \<Rightarrow> case b of (pb, cb) \<Rightarrow>
        if list_all2 veq pa pb then True else False)"

definition Line_eq ::
  "(vec2 \<Rightarrow> vec2 \<Rightarrow> bool) \<Rightarrow> vec2 \<times> vec2 \<times> color \<Rightarrow> vec2 \<times> vec2 \<times> color \<Rightarrow> bool" where
  "Line_eq veq a b =
     (case a of (pa, da, ca) \<Rightarrow> case b of (pb, db, cb) \<Rightarrow>
        if veq pa pb \<and> veq da db then True else False)"

definition Ellipse_eq ::
  "(vec2 \<Rightarrow> vec2 \<Rightarrow> bool) \<Rightarrow> vec2 \<times> vec2 \<times> color \<Rightarrow> vec2 \<times> vec2 \<times> color \<Rightarrow> bool" where
  "Ellipse_eq veq a b =
     (case a of (oa, ra, ca) \<Rightarrow> case b of (ob, rb, cb) \<Rightarrow>
        if veq oa ob \<and> veq ra rb then True else False)"

subsection \<open>Image\<close>

record Image =
  components :: "shape list"
  annotation :: string
  origin :: vec2

text \<open>The constructor \<^verbatim>\<open>Image(Vec2 o = {0, 0})\<close>.\<close>

definition Image_new :: "vec2 \<Rightarrow> Image" where
  "Image_new o1 = \<lparr>components = [], annotation = [], origin = o1\<rparr>"

definition bb_union :: "BoundingBox \<Rightarrow> BoundingBox \<Rightarrow> BoundingBox" where
  "bb_union acc bb =
     (let a1 = (if x_max acc < x_max bb then acc\<lparr>x_max := x_max bb\<rparr> else acc);
          a2 = (if x_min a1 > x_min bb then a1\<lparr>x_min := x_min bb\<rparr> else a1);
          a3 = (if y_max a2 < y_max bb then a2\<lparr>y_max := y_max bb\<rparr> else a2);
          a4 = (if y_min a3 > y_min bb then a3\<lparr>y_min := y_min bb\<rparr> else a3)
      in a4)"

definition Image_bounding_box :: "Image \<Rightarrow> BoundingBox" where
  "Image_bounding_box im =
     foldl (\<lambda>acc component. bb_union acc (bounding_box component)) BoundingBox_new (components im)"

definition Image_area :: "Image \<Rightarrow> real" where
  "Image_area im =
     (let bb = Image_bounding_box im;
          w = x_max bb - x_min bb;
          h = y_max bb - y_min bb
      in real_of_int w * real_of_int h)"

definition Image_perimeter :: "Image \<Rightarrow> real" where
  "Image_perimeter im =
     (let bb = Image_bounding_box im;
          w = x_max bb - x_min bb;
          h = y_max bb - y_min bb
      in 2 * real_of_int (w + h))"

definition Image_translate :: "vec2 \<Rightarrow> Image \<Rightarrow> Image" where
  "Image_translate v im = im\<lparr>components := map (translate v) (components im)\<rparr>"

definition add_component :: "shape \<Rightarrow> Image \<Rightarrow> Image" where
  "add_component s im = im\<lparr>components := components im @ [translate (origin im) s]\<rparr>"

definition set_origin :: "vec2 \<Rightarrow> Image \<Rightarrow> Image" where
  "set_origin new_origin im =
     (let v = vsub (origin im) new_origin in (Image_translate v im)\<lparr>origin := new_origin\<rparr>)"

definition get_annotation :: "Image \<Rightarrow> string" where
  "get_annotation im = annotation im"

definition annotate :: "string \<Rightarrow> Image \<Rightarrow> Image" where
  "annotate msg im = im\<lparr>annotation := msg\<rparr>"

text \<open>The other transformations of an Image hand the call to every component.\<close>

definition Image_homothety :: "real \<Rightarrow> Image \<Rightarrow> Image" where
  "Image_homothety ratio im = im\<lparr>components := map (homothety ratio) (components im)\<rparr>"

definition Image_homothety_at :: "vec2 \<Rightarrow> real \<Rightarrow> Image \<Rightarrow> Image" where
  "Image_homothety_at p ratio im = im\<lparr>components := map (homothety_at p ratio) (components im)\<rparr>"

definition Image_rotate_self :: "(real \<Rightarrow> real) \<Rightarrow> (real \<Rightarrow> real) \<Rightarrow> real \<Rightarrow> Image \<Rightarrow> Image" where
  "Image_rotate_self fsin fcos angle im =
     im\<lparr>components := map (rotate_self fsin fcos angle) (components im)\<rparr>"

definition Image_rotate_at ::
  "(real \<Rightarrow> real) \<Rightarrow> (real \<Rightarrow> real) \<Rightarrow> vec2 \<Rightarrow> real \<Rightarrow> Image \<Rightarrow> Image" where
  "Image_rotate_at fsin fcos p angle im =
     im\<lparr>components := map (rotate_at fsin fcos p angle) (components im)\<rparr>"

definition Image_centralSym :: "vec2 \<Rightarrow> Image \<Rightarrow> Image" where
  "Image_centralSym p im = im\<lparr>components := map (centralSym p) (components im)\<rparr>"

definition Image_axialSym :: "vec2 \<Rightarrow> vec2 \<Rightarrow> Image \<Rightarrow> Image" where
  "Image_axialSym p d im = im\<lparr>components := map (axialSym p d) (components im)\<rparr>"

subsection \<open>Text: to_string and std::stoi\<close>

text \<open>The character of a decimal digit \<open>d < 10\<close>.\<close>

definition digit_char :: "nat \<Rightarrow> char" where
  "digit_char d = ''0123456789'' ! d"

fun nat_digits :: "nat \<Rightarrow> string" where
  "nat_digits n = (if n < 10 then [digit_char n] else nat_digits (n div 10) @ [digit_char (n mod 10)])"

declare nat_digits.simps [simp del]

text \<open>\<^verbatim>\<open>to_string(int)\<close>: the decimal digits, with a minus sign for a negative number.\<close>

definition to_string_int :: "int \<Rightarrow> string" where
  "to_string_int i = (if i < 0 then CHR ''-'' # nat_digits (nat (- i)) else nat_digits (nat i))"

text \<open>\<^verbatim>\<open>to_string(float)\<close> prints with \<^verbatim>\<open>std::fixed\<close> and \<^verbatim>\<open>std::setprecision(2)\<close>; the digits
  a stream prints for a float belong to the C++ library, so the function is the parameter
  \<open>fmt\<close> of the serializers below.\<close>

definition isspace :: "char \<Rightarrow> bool" where
  "isspace ch = (ch = CHR '' '' \<or> ch = CHR 0x09 \<or> ch = CHR 0x0A \<or> ch = CHR 0x0B
                 \<or> ch = CHR 0x0C \<or> ch = CHR 0x0D)"

definition isdigit :: "char \<Rightarrow> bool" where
  "isdigit ch = (ch \<in> set ''0123456789'')"

definition digit_value :: "char \<Rightarrow> nat" where
  "digit_value ch = of_char ch - 48"

definition digits_value :: "string \<Rightarrow> nat" where
  "digits_value ds = foldl (\<lambda>acc ch. 10 * acc + digit_value ch) 0 ds"

datatype exn = invalid_argument | out_of_range

text \<open>\<^verbatim>\<open>std::stoi(word)\<close> in base 10: leading white space, an optional sign, then the longest
  run of digits; what follows the digits is ignored. No digit: \<^verbatim>\<open>std::invalid_argument\<close>.
  A value outside the 32-bit int: \<^verbatim>\<open>std::out_of_range\<close>.\<close>

definition stoi :: "string \<Rightarrow> exn + int" where
  "stoi str =
     (let t = dropWhile isspace str;
          neg = (t \<noteq> [] \<and> hd t = CHR ''-'');
          u = (if t \<noteq> [] \<and> (hd t = CHR ''-'' \<or> hd t = CHR ''+'') then tl t else t);
          ds = takeWhile isdigit u
      in if ds = [] then Inl invalid_argument
         else let v = (if neg then - int (digits_value ds) else int (digits_value ds))
              in if v < - 2147483648 \<or> 2147483647 < v then Inl out_of_range else Inr v)"

subsection \<open>Serialization\<close>

fun serialize_shape :: "(real \<Rightarrow> string) \<Rightarrow> shape \<Rightarrow> string \<Rightarrow> string" where
  "serialize_shape fmt (Circle m_origin m_radius c) serial =
     serial @ '' circle''
       @ '' '' @ fmt (vx m_origin) @ '' '' @ fmt (vy m_origin) @ '' '' @ fmt m_radius
       @ '' '' @ to_string_int (red c) @ '' '' @ to_string_int (green c)
       @ '' '' @ to_string_int (blue c)"
| "serialize_shape fmt (Polygon m_points c) serial =
     foldl (\<lambda>acc point. acc @ '' '' @ fmt (vx point) @ '' '' @ fmt (vy point))
           (serial @ '' polygon'' @ '' '' @ to_string_int (int (length m_points))) m_points
       @ '' '' @ to_string_int (red c) @ '' '' @ to_string_int (green c)
       @ '' '' @ to_string_int (blue c)"
| "serialize_shape fmt (Line m_point m_direction c) serial =
     serial @ '' line''
       @ '' '' @ fmt (vx m_point) @ '' '' @ fmt (vy m_point)
       @ '' '' @ fmt (vx m_direction) @ '' '' @ fmt (vy m_direction)
       @ '' '' @ to_string_int (red c) @ '' '' @ to_string_int (green c)
       @ '' '' @ to_string_int (blue c)"
| "serialize_shape fmt (Ellipse m_origin m_radius c) serial =
     serial @ '' ellipse''
       @ '' '' @ fmt (vx m_origin) @ '' '' @ fmt (vy m_origin)
       @ '' '' @ fmt (vx m_radius) @ '' '' @ fmt (vy m_radius)
       @ '' '' @ to_string_int (red c) @ '' '' @ to_string_int (green c)
       @ '' '' @ to_string_int (blue c)"

text \<open>\<^verbatim>\<open>Image::serialize\<close> appends to \<open>serial\<close>: every component, then the annotation
  clause.\<close>

definition serialize :: "(real \<Rightarrow> string) \<Rightarrow> Image \<Rightarrow> string \<Rightarrow> string" where
  "serialize fmt im serial =
     foldl (\<lambda>acc component. serialize_shape fmt component acc) serial (components im)
       @ '' annotation '' @ to_string_int (int (length (annotation im))) @ '' '' @ annotation im"

subsection \<open>The input stream\<close>

text \<open>A \<^verbatim>\<open>std::istringstream\<close>: the characters not yet read and the two state bits the
  code can reach. A stream is good when neither bit is set.\<close>

record istringstream =
  rest :: string
  eofbit :: bool
  failbit :: bool

definition istringstream_new :: "string \<Rightarrow> istringstream" where
  "istringstream_new s = \<lparr>rest = s, eofbit = False, failbit = False\<rparr>"

text \<open>\<^verbatim>\<open>buf >> word\<close>. A stream that is not good fails at once. Otherwise white space is
  skipped; at the end of the input the extraction fails (both bits are set) and \<open>word\<close>
  keeps its old value; otherwise \<open>word\<close> becomes the characters up to the next white space,
  and reaching the end of the input sets the eof bit only.\<close>

definition extract_word :: "istringstream \<Rightarrow> string \<Rightarrow> istringstream \<times> string" where
  "extract_word buf word =
     (if eofbit buf \<or> failbit buf then (buf\<lparr>failbit := True\<rparr>, word)
      else let r = dropWhile isspace (rest buf)
           in if r = [] then (buf\<lparr>rest := [], eofbit := True, failbit := True\<rparr>, word)
              else let r' = dropWhile (\<lambda>ch. \<not> isspace ch) r
                   in (buf\<lparr>rest := r', eofbit := (r' = [])\<rparr>, takeWhile (\<lambda>ch. \<not> isspace ch) r))"

text \<open>\<^verbatim>\<open>buf.getline(buffer, n)\<close> into \<^verbatim>\<open>char buffer[1024]\<close>, followed by
  \<^verbatim>\<open>std::string(buffer)\<close>. At most \<open>n - 1\<close> characters of the current line are stored, then
  a terminating zero. The tests after the copy come in this order: end of input (eof bit),
  a newline next (it is consumed), else the fail bit. Nothing extracted sets the fail bit.
  \<open>None\<close> is undefined behaviour: with \<open>n < 1\<close> nothing is written to the uninitialised
  buffer that is then read, and 1024 or more stored characters overrun it.\<close>

definition getline :: "istringstream \<Rightarrow> int \<Rightarrow> (istringstream \<times> string) option" where
  "getline buf n =
     (if n < 1 then None
      else if eofbit buf \<or> failbit buf then Some (buf\<lparr>failbit := True\<rparr>, [])
      else let line = takeWhile (\<lambda>ch. ch \<noteq> CHR 0x0A) (rest buf);
               stored = take (nat (n - 1)) line;
               r = drop (length stored) (rest buf);
               text = takeWhile (\<lambda>ch. ch \<noteq> CHR 0x00) stored
           in if 1024 \<le> length stored then None
              else if r = [] then Some (buf\<lparr>rest := [], eofbit := True, failbit := (stored = [])\<rparr>, text)
              else if hd r = CHR 0x0A then Some (buf\<lparr>rest := tl r\<rparr>, text)
              else Some (buf\<lparr>rest := r, failbit := True\<rparr>, text))"

subsection \<open>Deserialization\<close>

definition shapes :: "string list" where
  "shapes = [''circle'', ''polygon'', ''line'', ''ellipse'']"

definition transforms :: "string list" where
  "transforms = [''rotate'', ''homothety'', ''translate'', ''axial_sym'', ''central_sym'']"

text \<open>\<^verbatim>\<open>static_cast<Derivedtype>(i)\<close>.\<close>

definition Derivedtype_of_nat :: "nat \<Rightarrow> Derivedtype" where
  "Derivedtype_of_nat i =
     (if i = 0 then CIRCLE else if i = 1 then POLYGON else if i = 2 then LINE
      else if i = 3 then ELLIPSE else if i = 4 then IMAGE else END_ENUM)"

fun ShapeStringToEnum_from :: "string list \<Rightarrow> nat \<Rightarrow> string \<Rightarrow> Derivedtype" where
  "ShapeStringToEnum_from [] i s = END_ENUM"
| "ShapeStringToEnum_from (sh # shs) i s =
     (if sh = s then Derivedtype_of_nat i else ShapeStringToEnum_from shs (Suc i) s)"

definition ShapeStringToEnum :: "string \<Rightarrow> Derivedtype" where
  "ShapeStringToEnum s = ShapeStringToEnum_from shapes 0 s"

text \<open>The stream together with the loop variable \<^verbatim>\<open>word\<close>, which every \<^verbatim>\<open>buf >> word\<close>
  of the loop body overwrites.\<close>

type_synonym cursor = "istringstream \<times> string"

text \<open>What a \<^verbatim>\<open>try\<close> block has done so far: a value, or a thrown exception; the stream and
  \<^verbatim>\<open>word\<close> live outside the block and keep what was read either way.\<close>

datatype 'a attempt = Got 'a cursor | Threw exn cursor

definition and_then :: "'a attempt \<Rightarrow> ('a \<Rightarrow> cursor \<Rightarrow> 'b attempt) \<Rightarrow> 'b attempt" where
  "and_then a f = (case a of Got v cur \<Rightarrow> f v cur | Threw e cur \<Rightarrow> Threw e cur)"

text \<open>\<^verbatim>\<open>buf >> word; float x = std::stof(word);\<close> The parser \<^verbatim>\<open>std::stof\<close> belongs to the
  C++ library and is the parameter \<open>stof\<close>.\<close>

definition read_float :: "(string \<Rightarrow> exn + real) \<Rightarrow> cursor \<Rightarrow> real attempt" where
  "read_float stof cur =
     (case extract_word (fst cur) (snd cur) of (buf, word) \<Rightarrow>
        (case stof word of Inl e \<Rightarrow> Threw e (buf, word) | Inr v \<Rightarrow> Got v (buf, word)))"

text \<open>\<^verbatim>\<open>buf >> word; int r = std::stoi(word);\<close>\<close>

definition read_int :: "cursor \<Rightarrow> int attempt" where
  "read_int cur =
     (case extract_word (fst cur) (snd cur) of (buf, word) \<Rightarrow>
        (case stoi word of Inl e \<Rightarrow> Threw e (buf, word) | Inr v \<Rightarrow> Got v (buf, word)))"

definition read_color :: "cursor \<Rightarrow> color attempt" where
  "read_color cur =
     and_then (read_int cur) (\<lambda>r cur.
     and_then (read_int cur) (\<lambda>g cur.
     and_then (read_int cur) (\<lambda>b cur. Got (Color r g b) cur)))"

definition parse_circle :: "(string \<Rightarrow> exn + real) \<Rightarrow> cursor \<Rightarrow> shape attempt" where
  "parse_circle stof cur =
     and_then (read_float stof cur) (\<lambda>x cur.
     and_then (read_float stof cur) (\<lambda>y cur.
     and_then (read_float stof cur) (\<lambda>rad cur.
     and_then (read_color cur) (\<lambda>c cur. Got (Circle (Vec2 x y) rad c) cur))))"

text \<open>The loop \<^verbatim>\<open>for (int i = 0; i < nb_pts; i++)\<close> of the polygon case, \<open>k\<close> rounds to
  go.\<close>

primrec read_points :: "(string \<Rightarrow> exn + real) \<Rightarrow> nat \<Rightarrow> vec2 list \<Rightarrow> cursor \<Rightarrow> (vec2 list) attempt" where
  "read_points stof 0 = (\<lambda>points cur. Got points cur)"
| "read_points stof (Suc k) = (\<lambda>points cur.
     and_then (read_float stof cur) (\<lambda>x cur.
     and_then (read_float stof cur) (\<lambda>y cur. read_points stof k (points @ [Vec2 x y]) cur)))"

definition parse_polygon :: "(string \<Rightarrow> exn + real) \<Rightarrow> cursor \<Rightarrow> shape attempt" where
  "parse_polygon stof cur =
     and_then (read_int cur) (\<lambda>nb_pts cur.
     and_then (read_points stof (nat nb_pts) [] cur) (\<lambda>points cur.
     and_then (read_color cur) (\<lambda>c cur. Got (Polygon points c) cur)))"

definition parse_line :: "(string \<Rightarrow> exn + real) \<Rightarrow> cursor \<Rightarrow> shape attempt" where
  "parse_line stof cur =
     and_then (read_float stof cur) (\<lambda>x cur.
     and_then (read_float stof cur) (\<lambda>y cur.
     and_then (read_float stof cur) (\<lambda>dir_x cur.
     and_then (read_float stof cur) (\<lambda>dir_y cur.
     and_then (read_color cur) (\<lambda>c cur. Got (Line (Vec2 x y) (Vec2 dir_x dir_y) c) cur)))))"

definition parse_ellipse :: "(string \<Rightarrow> exn + real) \<Rightarrow> cursor \<Rightarrow> shape attempt" where
  "parse_ellipse stof cur =
     and_then (read_float stof cur) (\<lambda>x cur.
     and_then (read_float stof cur) (\<lambda>y cur.
     and_then (read_float stof cur) (\<lambda>rad_x cur.
     and_then (read_float stof cur) (\<lambda>rad_y cur.
     and_then (read_color cur) (\<lambda>c cur. Got (Ellipse (Vec2 x y) (Vec2 rad_x rad_y) c) cur)))))"

text \<open>How the run stands: still going, left by an exception that no handler caught, or in
  undefined behaviour.\<close>

datatype status = Normal | Raised exn | Undefined

text \<open>The state of \<^verbatim>\<open>deserialize\<close>: status, stream and word, the image, and the exceptions
  whose \<^verbatim>\<open>"Bad format : ..."\<close> line went to \<^verbatim>\<open>std::cout\<close>.\<close>

type_synonym dstate = "status \<times> cursor \<times> Image \<times> exn list"

text \<open>The end of a \<^verbatim>\<open>try\<close> block: \<^verbatim>\<open>add_component\<close> of the new shape, or the handler's
  diagnostic.\<close>

definition try_add :: "shape attempt \<Rightarrow> Image \<Rightarrow> exn list \<Rightarrow> dstate" where
  "try_add a im lg =
     (case a of Got s cur \<Rightarrow> (Normal, cur, add_component s im, lg)
              | Threw e cur \<Rightarrow> (Normal, cur, im, lg @ [e]))"

text \<open>The last case of the switch: no \<^verbatim>\<open>try\<close> block around \<^verbatim>\<open>std::stoi\<close>.\<close>

definition annotation_clause :: "cursor \<Rightarrow> Image \<Rightarrow> exn list \<Rightarrow> dstate" where
  "annotation_clause cur im lg =
     (case extract_word (fst cur) (snd cur) of (buf, word) \<Rightarrow>
        (case stoi word of
           Inl e \<Rightarrow> (Raised e, (buf, word), im, lg)
         | Inr string_size \<Rightarrow>
             if 2147483647 < string_size + 2 then (Undefined, (buf, word), im, lg)
             else (case getline buf (string_size + 2) of
                     None \<Rightarrow> (Undefined, (buf, word), im, lg)
                   | Some (buf', text) \<Rightarrow> (Normal, (buf', word), annotate text im, lg))))"

text \<open>The \<^verbatim>\<open>switch (Shape::ShapeStringToEnum(word))\<close>. Its labels are the enumerators
  \<^verbatim>\<open>Shape::CIRCLE\<close>, \<^verbatim>\<open>POLYGON\<close>, \<^verbatim>\<open>LINE\<close>, \<^verbatim>\<open>ELLIPSE\<close> of \<^verbatim>\<open>Derivedtype\<close> and
  \<^verbatim>\<open>Shape::UNKNOWN\<close> of \<^verbatim>\<open>Functions\<close>; the switch compares their integer values, and
  there is no default label.\<close>

definition record_body :: "(string \<Rightarrow> exn + real) \<Rightarrow> cursor \<Rightarrow> Image \<Rightarrow> exn list \<Rightarrow> dstate" where
  "record_body stof cur im lg =
     (let d = Derivedtype_value (ShapeStringToEnum (snd cur))
      in if d = Derivedtype_value CIRCLE then try_add (parse_circle stof cur) im lg
         else if d = Derivedtype_value POLYGON then try_add (parse_polygon stof cur) im lg
         else if d = Derivedtype_value LINE then try_add (parse_line stof cur) im lg
         else if d = Derivedtype_value ELLIPSE then try_add (parse_ellipse stof cur) im lg
         else if d = Functions_value UNKNOWN then annotation_clause cur im lg
         else (Normal, cur, im, lg))"

text \<open>The number of characters the stream has left, and where an attempt stopped.\<close>

definition left :: "cursor \<Rightarrow> nat" where
  "left cur = length (rest (fst cur))"

fun cursor_of :: "'a attempt \<Rightarrow> cursor" where
  "cursor_of (Got v cur) = cur"
| "cursor_of (Threw e cur) = cur"

text \<open>The loop \<^verbatim>\<open>for (std::string word; buf >> word;) { switch ... }\<close>. It ends when the
  extraction fails; an exception that leaves the body, or undefined behaviour, ends the
  run.\<close>

function deserialize_loop :: "(string \<Rightarrow> exn + real) \<Rightarrow> cursor \<Rightarrow> Image \<Rightarrow> exn list \<Rightarrow> dstate" where
  "deserialize_loop stof cur im lg =
     (case extract_word (fst cur) (snd cur) of (buf, word) \<Rightarrow>
        if failbit buf then (Normal, (buf, word), im, lg)
        else (case record_body stof (buf, word) im lg of
                (Normal, cur', im', lg') \<Rightarrow> deserialize_loop stof cur' im' lg'
              | (Raised e, cur', im', lg') \<Rightarrow> (Raised e, cur', im', lg')
              | (Undefined, cur', im', lg') \<Rightarrow> (Undefined, cur', im', lg')))"
  by pat_completeness auto

text \<open>\<^verbatim>\<open>Image::deserialize\<close>: the components are cleared first, the annotation and the
  origin are kept; \<^verbatim>\<open>word\<close> starts empty.\<close>

definition deserialize :: "(string \<Rightarrow> exn + real) \<Rightarrow> string \<Rightarrow> Image \<Rightarrow> dstate" where
  "deserialize stof s im =
     deserialize_loop stof (istringstream_new s, []) (im\<lparr>components := []\<rparr>) []"

definition status_of :: "dstate \<Rightarrow> status" where
  "status_of st = fst st"

definition image_of :: "dstate \<Rightarrow> Image" where
  "image_of st = fst (snd (snd st))"

definition cout_of :: "dstate \<Rightarrow> exn list" where
  "cout_of st = snd (snd (snd st))"

subsection \<open>Notions used to state the round trip\<close>

text \<open>A stream in the good state; a word that \<^verbatim>\<open>buf >> word\<close> reads back whole (not empty,
  no white space); a text that starts with the separating space.\<close>

definition good :: "string \<Rightarrow> istringstream" where
  "good r = \<lparr>rest = r, eofbit = False, failbit = False\<rparr>"

definition token :: "string \<Rightarrow> bool" where
  "token t = (t \<noteq> [] \<and> list_all (\<lambda>ch. \<not> isspace ch) t)"

definition spaced :: "string \<Rightarrow> bool" where
  "spaced r = (r \<noteq> [] \<and> hd r = CHR '' '')"

text \<open>A shape with every float replaced by its image under \<open>q\<close>, the value that comes back
  when the float is printed and parsed again.\<close>

definition qv :: "(real \<Rightarrow> real) \<Rightarrow> vec2 \<Rightarrow> vec2" where
  "qv q v = Vec2 (q (vx v)) (q (vy v))"

fun quantize :: "(real \<Rightarrow> real) \<Rightarrow> shape \<Rightarrow> shape" where
  "quantize q (Circle ori r c) = Circle (qv q ori) (q r) c"
| "quantize q (Polygon ps c) = Polygon (map (qv q) ps) c"
| "quantize q (Line pt d c) = Line (qv q pt) (qv q d) c"
| "quantize q (Ellipse ori rv c) = Ellipse (qv q ori) (qv q rv) c"

text \<open>The values of a 32-bit int; a shape whose colour components (and number of points)
  are such values.\<close>

definition int_range :: "int \<Rightarrow> bool" where
  "int_range i = (- 2147483648 \<le> i \<and> i \<le> 2147483647)"

definition color_ok :: "color \<Rightarrow> bool" where
  "color_ok c = (int_range (red c) \<and> int_range (green c) \<and> int_range (blue c))"

fun shape_ok :: "shape \<Rightarrow> bool" where
  "shape_ok (Polygon ps c) = (color_ok c \<and> int_range (int (length ps)))"
| "shape_ok s = color_ok (m_color s)"

text \<open>The text of one point in a serialized polygon.\<close>

definition point_text :: "(real \<Rightarrow> string) \<Rightarrow> vec2 \<Rightarrow> string" where
  "point_text fmt point = '' '' @ fmt (vx point) @ '' '' @ fmt (vy point)"

section \<open>The loop of deserialize terminates\<close>

text \<open>A successful \<^verbatim>\<open>buf >> word\<close> consumes at least one character, and nothing in the body
  of the loop puts characters back.\<close>

lemma extract_word_le: "length (rest (fst (extract_word b w))) \<le> length (rest b)"
  unfolding extract_word_def Let_def
  by (auto intro: le_trans[OF length_dropWhile_le length_dropWhile_le])

lemma dropWhile_word_less:
  "r \<noteq> [] \<Longrightarrow> \<not> P (hd r) \<Longrightarrow> length (dropWhile (\<lambda>c. \<not> P c) r) < length r"
  by (cases r) (auto intro: le_imp_less_Suc length_dropWhile_le)

lemma extract_word_less:
  assumes a: "extract_word b w = (b', w')" and nf: "\<not> failbit b'"
  shows "length (rest b') < length (rest b)"
proof -
  let ?r = "dropWhile isspace (rest b)"
  from a nf have g: "\<not> eofbit b" "\<not> failbit b" "?r \<noteq> []"
    by (auto simp: extract_word_def Let_def split: if_splits)
  with a have r: "rest b' = dropWhile (\<lambda>ch. \<not> isspace ch) ?r"
    by (auto simp: extract_word_def Let_def simp del: dropWhile_eq_Nil_conv)
  have "\<not> isspace (hd ?r)" using g(3) hd_dropWhile by blast
  then have "length (rest b') < length ?r" unfolding r using g(3) by (rule dropWhile_word_less[rotated])
  also have "\<dots> \<le> length (rest b)" by (rule length_dropWhile_le)
  finally show ?thesis .
qed

lemma read_float_le: "left cur \<le> n \<Longrightarrow> left (cursor_of (read_float stof cur)) \<le> n"
  using extract_word_le[of "fst cur" "snd cur"]
  by (auto simp: read_float_def left_def split: prod.splits sum.splits)

lemma read_int_le: "left cur \<le> n \<Longrightarrow> left (cursor_of (read_int cur)) \<le> n"
  using extract_word_le[of "fst cur" "snd cur"]
  by (auto simp: read_int_def left_def split: prod.splits sum.splits)

lemma and_then_le:
  assumes "left (cursor_of a) \<le> n"
    and "\<And>v c. left c \<le> n \<Longrightarrow> left (cursor_of (f v c)) \<le> n"
  shows "left (cursor_of (and_then a f)) \<le> n"
  using assms by (cases a) (auto simp: and_then_def)

lemma read_color_le: "left cur \<le> n \<Longrightarrow> left (cursor_of (read_color cur)) \<le> n"
  unfolding read_color_def
  by (intro and_then_le read_int_le) simp_all

lemma read_points_le: "left cur \<le> n \<Longrightarrow> left (cursor_of (read_points stof k pts cur)) \<le> n"
proof (induction k arbitrary: pts cur)
  case 0
  then show ?case by simp
next
  case (Suc k)
  show ?case by (simp, intro and_then_le read_float_le Suc.prems Suc.IH)
qed

lemma parse_circle_le: "left cur \<le> n \<Longrightarrow> left (cursor_of (parse_circle stof cur)) \<le> n"
  unfolding parse_circle_def
  by (intro and_then_le read_float_le read_color_le) simp_all

lemma parse_line_le: "left cur \<le> n \<Longrightarrow> left (cursor_of (parse_line stof cur)) \<le> n"
  unfolding parse_line_def
  by (intro and_then_le read_float_le read_color_le) simp_all

lemma parse_ellipse_le: "left cur \<le> n \<Longrightarrow> left (cursor_of (parse_ellipse stof cur)) \<le> n"
  unfolding parse_ellipse_def
  by (intro and_then_le read_float_le read_color_le) simp_all

lemma parse_polygon_le: "left cur \<le> n \<Longrightarrow> left (cursor_of (parse_polygon stof cur)) \<le> n"
  unfolding parse_polygon_def
  by (intro and_then_le read_int_le read_color_le read_points_le) simp_all

lemma try_add_le: "left (cursor_of a) \<le> n \<Longrightarrow> left (fst (snd (try_add a im lg))) \<le> n"
  by (cases a) (auto simp: try_add_def)

lemma getline_le: "getline b k = Some (b', t) \<Longrightarrow> length (rest b') \<le> length (rest b)"
  by (auto simp: getline_def Let_def split: if_splits)

lemma annotation_clause_le: "left (fst (snd (annotation_clause cur im lg))) \<le> left cur"
  using extract_word_le[of "fst cur" "snd cur"]
  by (auto simp: annotation_clause_def left_def
      split: prod.splits sum.splits option.splits dest!: getline_le)

lemma record_body_le: "left (fst (snd (record_body stof cur im lg))) \<le> left cur"
  unfolding record_body_def Let_def
  by (auto intro!: try_add_le parse_circle_le parse_polygon_le parse_line_le
      parse_ellipse_le annotation_clause_le)

termination deserialize_loop
proof (relation "measure (\<lambda>(stof, cur, im, lg). left cur)", goal_cases)
  case 1
  show ?case by simp
next
  case (2 stof cur im lg x1 x2 x y xa ya xb yb)
  have e: "extract_word (fst cur) (snd cur) = (x1, x2)" using 2(1) by simp
  have b: "record_body stof (x1, x2) im lg = (Normal, xa, xb, yb)" using 2 e by simp
  have "left xa \<le> left (x1, x2)" using record_body_le[of stof "(x1, x2)" im lg] b by simp
  moreover have "length (rest x1) < length (rest (fst cur))" using extract_word_less[OF e 2(2)] .
  ultimately show ?case by (simp add: left_def)
qed

declare deserialize_loop.simps [simp del]

section \<open>The round trip of serialize and deserialize\<close>

text \<open>Reading back what \<^verbatim>\<open>serialize\<close> wrote, token by token. The printing of a float is
  \<open>fmt\<close> and its parsing \<open>stof\<close>; all that is asked of them is that \<open>fmt\<close> prints a word
  without white space and that \<open>stof\<close> parses the printed \<open>v\<close> to some \<open>q v\<close>.\<close>

lemma spaced_Cons [simp]: "spaced (CHR '' '' # r)"
  by (simp add: spaced_def)

lemma spaced_append [simp]: "spaced a \<Longrightarrow> spaced (a @ b)"
  by (cases a) (auto simp: spaced_def)

lemma dropWhile_space_token: "token t \<Longrightarrow> dropWhile isspace (CHR '' '' # t @ r) = t @ r"
  by (cases t) (auto simp: token_def isspace_def)

lemma extract_word_token:
  assumes "token t" and "spaced r"
  shows "extract_word (good (CHR '' '' # t @ r)) w = (good r, t)"
proof -
  have ns: "\<And>x. x \<in> set t \<Longrightarrow> \<not> isspace x" using assms by (simp add: token_def list_all_iff)
  obtain r' where r: "r = CHR '' '' # r'" using assms(2) by (cases r) (auto simp: spaced_def)
  have sp: "isspace CHR '' ''" by (simp add: isspace_def)
  have d: "dropWhile isspace (CHR '' '' # t @ CHR '' '' # r') = t @ CHR '' '' # r'"
    using assms(1) by (rule dropWhile_space_token)
  have ne: "t @ CHR '' '' # r' \<noteq> []" by simp
  have d2: "dropWhile (\<lambda>ch. \<not> isspace ch) (t @ CHR '' '' # r') = CHR '' '' # r'"
    using ns sp by (simp add: dropWhile_append2)
  have t2: "takeWhile (\<lambda>ch. \<not> isspace ch) (t @ CHR '' '' # r') = t"
    using ns sp by (simp add: takeWhile_append2)
  show ?thesis
    unfolding extract_word_def good_def Let_def r
    by (simp only: d d2 t2 ne istringstream.simps if_False simp_thms list.simps)
qed

lemma digit_char_props:
  assumes "d < 10"
  shows "isdigit (digit_char d)" and "\<not> isspace (digit_char d)" and "digit_value (digit_char d) = d"
    and "digit_char d \<noteq> CHR ''-''" and "digit_char d \<noteq> CHR ''+''"
proof -
  from assms have "d \<in> {0,1,2,3,4,5,6,7,8,9}" by auto
  then show "isdigit (digit_char d)" "\<not> isspace (digit_char d)" "digit_value (digit_char d) = d"
     "digit_char d \<noteq> CHR ''-''" "digit_char d \<noteq> CHR ''+''"
    by (auto simp: isdigit_def isspace_def digit_char_def digit_value_def)
qed

lemma nat_digits_props:
  "nat_digits n \<noteq> [] \<and> list_all isdigit (nat_digits n) \<and> list_all (\<lambda>ch. \<not> isspace ch) (nat_digits n)
   \<and> digits_value (nat_digits n) = n \<and> hd (nat_digits n) \<noteq> CHR ''-'' \<and> hd (nat_digits n) \<noteq> CHR ''+''"
proof (induction n rule: nat_digits.induct)
  case (1 n)
  show ?case
  proof (cases "n < 10")
    case True
    then show ?thesis
      by (subst (1 2 3 4 5 6) nat_digits.simps) (simp add: digit_char_props digits_value_def)
  next
    case False
    then have m: "n mod 10 < 10" by simp
    from False 1 have ih: "nat_digits (n div 10) \<noteq> []" "list_all isdigit (nat_digits (n div 10))"
      "list_all (\<lambda>ch. \<not> isspace ch) (nat_digits (n div 10))" "digits_value (nat_digits (n div 10)) = n div 10"
      "hd (nat_digits (n div 10)) \<noteq> CHR ''-''" "hd (nat_digits (n div 10)) \<noteq> CHR ''+''"
      by simp_all
    have e: "nat_digits n = nat_digits (n div 10) @ [digit_char (n mod 10)]"
      using False by (subst nat_digits.simps) simp
    have dv: "digits_value (nat_digits n) = 10 * (n div 10) + n mod 10"
      unfolding e using ih(4) m by (simp add: digits_value_def digit_char_props)
    show ?thesis
      using ih m dv by (simp add: e digit_char_props)
  qed
qed

lemma to_string_int_token: "token (to_string_int i)"
  using nat_digits_props[of "nat i"] nat_digits_props[of "nat (- i)"]
  by (auto simp: token_def to_string_int_def isspace_def)

lemma stoi_to_string_int:
  assumes "- 2147483648 \<le> i" "i \<le> 2147483647"
  shows "stoi (to_string_int i) = Inr i"
proof (cases "i < 0")
  case True
  let ?ds = "nat_digits (nat (- i))"
  have p: "?ds \<noteq> []" "list_all isdigit ?ds" "digits_value ?ds = nat (- i)"
    using nat_digits_props[of "nat (- i)"] by simp_all
  have tw: "takeWhile isdigit ?ds = ?ds" using p(2) by (simp add: list_all_iff)
  show ?thesis using True assms p
    by (simp add: stoi_def to_string_int_def isspace_def Let_def tw)
next
  case False
  let ?ds = "nat_digits (nat i)"
  have p: "?ds \<noteq> []" "list_all isdigit ?ds" "list_all (\<lambda>ch. \<not> isspace ch) ?ds" "digits_value ?ds = nat i"
     "hd ?ds \<noteq> CHR ''-''" "hd ?ds \<noteq> CHR ''+''"
    using nat_digits_props[of "nat i"] by simp_all
  have tw: "takeWhile isdigit ?ds = ?ds" using p(2) by (simp add: list_all_iff)
  have dw: "dropWhile isspace ?ds = ?ds" using p(1,3) by (cases ?ds) auto
  show ?thesis using False assms p
    by (simp add: stoi_def to_string_int_def Let_def tw dw)
qed


lemma read_int_token:
  "int_range i \<Longrightarrow> spaced r \<Longrightarrow>
   read_int (good (CHR '' '' # to_string_int i @ r), w) = Got i (good r, to_string_int i)"
  by (simp add: read_int_def extract_word_token to_string_int_token stoi_to_string_int int_range_def)

lemma read_float_token:
  "token t \<Longrightarrow> spaced r \<Longrightarrow>
   read_float stof (good (CHR '' '' # t @ r), w)
     = (case stof t of Inl e \<Rightarrow> Threw e (good r, t) | Inr v \<Rightarrow> Got v (good r, t))"
  by (simp add: read_float_def extract_word_token)

lemma read_color_token:
  "color_ok c \<Longrightarrow> spaced r \<Longrightarrow>
   read_color (good (CHR '' '' # to_string_int (red c) @ CHR '' '' # to_string_int (green c)
                      @ CHR '' '' # to_string_int (blue c) @ r), w)
     = Got c (good r, to_string_int (blue c))"
  by (simp add: read_color_def and_then_def read_int_token color_ok_def)

lemma spaced_points [simp]: "spaced r \<Longrightarrow> spaced (concat (map (point_text fmt) ps) @ r)"
  by (cases ps) (simp_all add: point_text_def)

lemma read_points_text:
  assumes tok: "\<And>v. token (fmt v)" and rt: "\<And>v. stof (fmt v) = Inr (q v)" and sp: "spaced r"
  shows "\<exists>w'. read_points stof (length ps) acc (good (concat (map (point_text fmt) ps) @ r), w)
     = Got (acc @ map (qv q) ps) (good r, w')"
proof (induction ps arbitrary: acc w)
  case Nil
  then show ?case by simp
next
  case (Cons a ps)
  let ?R = "concat (map (point_text fmt) ps) @ r"
  have sp': "spaced ?R" using sp by simp
  from Cons.IH[of "acc @ [qv q a]" "fmt (vy a)"] obtain w' where
    ih: "read_points stof (length ps) (acc @ [qv q a]) (good ?R, fmt (vy a))
     = Got ((acc @ [qv q a]) @ map (qv q) ps) (good r, w')" by blast
  have "read_points stof (length (a # ps)) acc
          (good (concat (map (point_text fmt) (a # ps)) @ r), w)
        = read_points stof (Suc (length ps)) acc
          (good (CHR '' '' # fmt (vx a) @ CHR '' '' # fmt (vy a) @ ?R), w)"
    by (simp add: point_text_def[of fmt a])
  also have "\<dots> = read_points stof (length ps) (acc @ [qv q a]) (good ?R, fmt (vy a))"
    using sp' by (simp add: and_then_def read_float_token tok rt qv_def)
  also note ih
  finally show ?case by (intro exI[of _ w']) simp
qed


lemma good_sel [simp]: "rest (good r) = r" "eofbit (good r) = False" "failbit (good r) = False"
  by (simp_all add: good_def)

lemma loop_keyword_step:
  assumes "token k" and "spaced P"
    and "record_body stof (good P, k) im lg = (Normal, cur', im', lg')"
  shows "deserialize_loop stof (good (CHR '' '' # k @ P), w) im lg
         = deserialize_loop stof cur' im' lg'"
  by (subst deserialize_loop.simps) (simp add: extract_word_token[OF assms(1,2)] assms(3))

lemma points_foldl:
  "foldl (\<lambda>acc point. acc @ CHR '' '' # fmt (vx point) @ CHR '' '' # fmt (vy point)) a ps
   = a @ concat (map (point_text fmt) ps)"
  by (induction ps arbitrary: a) (simp_all add: point_text_def)

lemma serialize_shape_append: "serialize_shape fmt sh serial = serial @ serialize_shape fmt sh []"
  by (cases sh) (simp_all add: points_foldl)

lemma spaced_serialize_shape [simp]: "spaced (serialize_shape fmt sh [] @ r)"
  by (cases sh) (simp_all add: points_foldl)

lemma keyword_tokens:
  "token ''circle''" "token ''polygon''" "token ''line''" "token ''ellipse''" "token ''annotation''"
  by (simp_all add: token_def isspace_def)

lemma keyword_enums:
  "ShapeStringToEnum ''circle'' = CIRCLE" "ShapeStringToEnum ''polygon'' = POLYGON"
  "ShapeStringToEnum ''line'' = LINE" "ShapeStringToEnum ''ellipse'' = ELLIPSE"
  "ShapeStringToEnum ''annotation'' = END_ENUM"
  by (simp_all add: ShapeStringToEnum_def shapes_def Derivedtype_of_nat_def)

lemma loop_shape_step:
  assumes tok: "\<And>v. token (fmt v)" and rt: "\<And>v. stof (fmt v) = Inr (q v)"
    and ok: "shape_ok sh" and sp: "spaced R"
  shows "deserialize_loop stof (good (serialize_shape fmt sh [] @ R), w) im lg
         = deserialize_loop stof (good R, to_string_int (blue (m_color sh)))
             (add_component (quantize q sh) im) lg"
proof (cases sh)
  case (Circle ori r c)
  define P where "P = CHR '' '' # fmt (vx ori) @ CHR '' '' # fmt (vy ori) @ CHR '' '' # fmt r
     @ CHR '' '' # to_string_int (red c) @ CHR '' '' # to_string_int (green c)
     @ CHR '' '' # to_string_int (blue c) @ R"
  have e: "serialize_shape fmt sh [] @ R = CHR '' '' # ''circle'' @ P"
    by (simp add: Circle P_def)
  have sP: "spaced P" by (simp add: P_def)
  have c: "color_ok c" using ok Circle by simp
  have "parse_circle stof (good P, ''circle'')
        = Got (quantize q sh) (good R, to_string_int (blue c))"
    by (simp add: P_def parse_circle_def and_then_def read_float_token read_color_token
        tok rt c sp Circle qv_def)
  then have "record_body stof (good P, ''circle'') im lg
        = (Normal, (good R, to_string_int (blue c)), add_component (quantize q sh) im, lg)"
    by (simp add: record_body_def keyword_enums try_add_def)
  from loop_keyword_step[OF keyword_tokens(1) sP this] show ?thesis
    unfolding e using Circle by simp
next
  case (Polygon ps c)
  define P where "P = CHR '' '' # to_string_int (int (length ps))
     @ concat (map (point_text fmt) ps)
     @ CHR '' '' # to_string_int (red c) @ CHR '' '' # to_string_int (green c)
     @ CHR '' '' # to_string_int (blue c) @ R"
  define C where "C = CHR '' '' # to_string_int (red c) @ CHR '' '' # to_string_int (green c)
     @ CHR '' '' # to_string_int (blue c) @ R"
  have e: "serialize_shape fmt sh [] @ R = CHR '' '' # ''polygon'' @ P"
    by (simp add: Polygon P_def points_foldl)
  have sP: "spaced P" by (simp add: P_def)
  have sC: "spaced C" by (simp add: C_def)
  have c: "color_ok c" and n: "int_range (int (length ps))" using ok Polygon by simp_all
  obtain w' where rp: "read_points stof (length ps) []
        (good (concat (map (point_text fmt) ps) @ C), to_string_int (int (length ps)))
      = Got ([] @ map (qv q) ps) (good C, w')"
    using read_points_text[where fmt=fmt and stof=stof and q=q and r=C and ps=ps and acc="[]",
        OF tok rt sC] by blast
  have ri: "read_int (good P, ''polygon'')
      = Got (int (length ps)) (good (concat (map (point_text fmt) ps) @ C), to_string_int (int (length ps)))"
    unfolding P_def C_def[symmetric] using n sC by (simp add: read_int_token)
  have rc: "read_color (good C, w') = Got c (good R, to_string_int (blue c))"
    unfolding C_def using c sp by (simp add: read_color_token)
  have "parse_polygon stof (good P, ''polygon'')
        = Got (quantize q sh) (good R, to_string_int (blue c))"
    by (simp add: parse_polygon_def and_then_def ri rp rc Polygon)
  then have "record_body stof (good P, ''polygon'') im lg
        = (Normal, (good R, to_string_int (blue c)), add_component (quantize q sh) im, lg)"
    by (simp add: record_body_def keyword_enums try_add_def)
  from loop_keyword_step[OF keyword_tokens(2) sP this] show ?thesis
    unfolding e using Polygon by simp
next
  case (Line pt d c)
  define P where "P = CHR '' '' # fmt (vx pt) @ CHR '' '' # fmt (vy pt)
     @ CHR '' '' # fmt (vx d) @ CHR '' '' # fmt (vy d)
     @ CHR '' '' # to_string_int (red c) @ CHR '' '' # to_string_int (green c)
     @ CHR '' '' # to_string_int (blue c) @ R"
  have e: "serialize_shape fmt sh [] @ R = CHR '' '' # ''line'' @ P"
    by (simp add: Line P_def)
  have sP: "spaced P" by (simp add: P_def)
  have c: "color_ok c" using ok Line by simp
  have "parse_line stof (good P, ''line'')
        = Got (quantize q sh) (good R, to_string_int (blue c))"
    by (simp add: P_def parse_line_def and_then_def read_float_token read_color_token
        tok rt c sp Line qv_def)
  then have "record_body stof (good P, ''line'') im lg
        = (Normal, (good R, to_string_int (blue c)), add_component (quantize q sh) im, lg)"
    by (simp add: record_body_def keyword_enums try_add_def)
  from loop_keyword_step[OF keyword_tokens(3) sP this] show ?thesis
    unfolding e using Line by simp
next
  case (Ellipse ori rv c)
  define P where "P = CHR '' '' # fmt (vx ori) @ CHR '' '' # fmt (vy ori)
     @ CHR '' '' # fmt (vx rv) @ CHR '' '' # fmt (vy rv)
     @ CHR '' '' # to_string_int (red c) @ CHR '' '' # to_string_int (green c)
     @ CHR '' '' # to_string_int (blue c) @ R"
  have e: "serialize_shape fmt sh [] @ R = CHR '' '' # ''ellipse'' @ P"
    by (simp add: Ellipse P_def)
  have sP: "spaced P" by (simp add: P_def)
  have c: "color_ok c" using ok Ellipse by simp
  have "parse_ellipse stof (good P, ''ellipse'')
        = Got (quantize q sh) (good R, to_string_int (blue c))"
    by (simp add: P_def parse_ellipse_def and_then_def read_float_token read_color_token
        tok rt c sp Ellipse qv_def)
  then have "record_body stof (good P, ''ellipse'') im lg
        = (Normal, (good R, to_string_int (blue c)), add_component (quantize q sh) im, lg)"
    by (simp add: record_body_def keyword_enums try_add_def)
  from loop_keyword_step[OF keyword_tokens(4) sP this] show ?thesis
    unfolding e using Ellipse by simp
qed


lemma serialize_components:
  "foldl (\<lambda>acc component. serialize_shape fmt component acc) serial cs
   = serial @ concat (map (\<lambda>component. serialize_shape fmt component []) cs)"
proof (induction cs arbitrary: serial)
  case Nil
  then show ?case by simp
next
  case (Cons c cs)
  show ?case
    by (simp add: serialize_shape_append[of fmt c serial] Cons.IH)
qed

lemma loop_components:
  assumes tok: "\<And>v. token (fmt v)" and rt: "\<And>v. stof (fmt v) = Inr (q v)"
    and ok: "list_all shape_ok cs" and sp: "spaced T"
  shows "\<exists>w'. deserialize_loop stof
            (good (concat (map (\<lambda>component. serialize_shape fmt component []) cs) @ T), w) im lg
         = deserialize_loop stof (good T, w')
            (foldl (\<lambda>i component. add_component (quantize q component) i) im cs) lg"
  using ok
proof (induction cs arbitrary: w im)
  case Nil
  then show ?case by auto
next
  case (Cons c cs)
  let ?R = "concat (map (\<lambda>component. serialize_shape fmt component []) cs) @ T"
  have spR: "spaced ?R" using sp by (cases cs) simp_all
  have okc: "shape_ok c" and okcs: "list_all shape_ok cs" using Cons.prems by simp_all
  from Cons.IH[OF okcs, of "to_string_int (blue (m_color c))" "add_component (quantize q c) im"]
  obtain w' where ih: "deserialize_loop stof (good ?R, to_string_int (blue (m_color c)))
        (add_component (quantize q c) im) lg
      = deserialize_loop stof (good T, w')
        (foldl (\<lambda>i component. add_component (quantize q component) i)
           (add_component (quantize q c) im) cs) lg" by blast
  have "deserialize_loop stof
          (good (concat (map (\<lambda>component. serialize_shape fmt component []) (c # cs)) @ T), w) im lg
        = deserialize_loop stof (good (serialize_shape fmt c [] @ ?R), w) im lg"
    by simp
  also have "\<dots> = deserialize_loop stof (good ?R, to_string_int (blue (m_color c)))
        (add_component (quantize q c) im) lg"
    by (rule loop_shape_step[where fmt=fmt and stof=stof and q=q, OF tok rt okc spR])
  also note ih
  finally show ?case by (intro exI[of _ w']) simp
qed

lemma foldl_add_component:
  "foldl (\<lambda>i component. add_component (f component) i) im cs
   = im\<lparr>components := components im @ map (\<lambda>component. translate (origin im) (f component)) cs\<rparr>"
  by (induction cs arbitrary: im) (simp_all add: add_component_def)

lemma getline_whole_rest:
  assumes "length a \<le> 1022" and "CHR 0x0A \<notin> set a" and "CHR 0x00 \<notin> set a"
  shows "getline (good (CHR '' '' # a)) (int (length a) + 2)
         = Some (\<lparr>rest = [], eofbit = True, failbit = False\<rparr>, CHR '' '' # a)"
proof -
  have l: "takeWhile (\<lambda>ch. ch \<noteq> CHR 0x0A) a = a"
    using assms(2) by (auto simp: takeWhile_eq_all_conv)
  have z: "takeWhile (\<lambda>ch. ch \<noteq> CHR 0x00) a = a"
    using assms(3) by (auto simp: takeWhile_eq_all_conv)
  have n: "nat (int (length a) + 2 - 1) = Suc (length a)"
    by simp
  show ?thesis
    using assms(1) by (simp add: getline_def Let_def good_def l z n del: of_nat_add)
qed

lemma loop_annotation:
  assumes "length a \<le> 1022" and "CHR 0x0A \<notin> set a" and "CHR 0x00 \<notin> set a"
  shows "deserialize_loop stof
           (good (CHR '' '' # ''annotation'' @ CHR '' '' # to_string_int (int (length a)) @ CHR '' '' # a), w) im lg
         = (Normal, (\<lparr>rest = [], eofbit = True, failbit = True\<rparr>, to_string_int (int (length a))),
            im\<lparr>annotation := CHR '' '' # a\<rparr>, lg)"
proof -
  let ?n = "to_string_int (int (length a))"
  let ?P = "CHR '' '' # ?n @ CHR '' '' # a"
  have r: "int_range (int (length a))" using assms(1) by (simp add: int_range_def)
  have ew: "extract_word (good ?P) ''annotation'' = (good (CHR '' '' # a), ?n)"
    by (rule extract_word_token) (simp_all add: to_string_int_token)
  have st: "stoi ?n = Inr (int (length a))"
    using r by (simp add: stoi_to_string_int int_range_def)
  have "annotation_clause (good ?P, ''annotation'') im lg
        = (Normal, (\<lparr>rest = [], eofbit = True, failbit = False\<rparr>, ?n), annotate (CHR '' '' # a) im, lg)"
    using assms(1) by (simp add: annotation_clause_def ew st getline_whole_rest[OF assms])
  then have rb: "record_body stof (good ?P, ''annotation'') im lg
        = (Normal, (\<lparr>rest = [], eofbit = True, failbit = False\<rparr>, ?n), annotate (CHR '' '' # a) im, lg)"
    by (simp add: record_body_def keyword_enums)
  have "deserialize_loop stof (good (CHR '' '' # ''annotation'' @ ?P), w) im lg
        = deserialize_loop stof (\<lparr>rest = [], eofbit = True, failbit = False\<rparr>, ?n)
            (annotate (CHR '' '' # a) im) lg"
    by (rule loop_keyword_step[OF keyword_tokens(5) _ rb]) simp
  also have "\<dots> = (Normal, (\<lparr>rest = [], eofbit = True, failbit = True\<rparr>, ?n),
            im\<lparr>annotation := CHR '' '' # a\<rparr>, lg)"
    by (subst deserialize_loop.simps) (simp add: extract_word_def annotate_def)
  finally show ?thesis .
qed

theorem round_trip:
  assumes tok: "\<And>v. token (fmt v)" and rt: "\<And>v. stof (fmt v) = Inr (q v)"
    and ok: "list_all shape_ok (components im)"
    and a: "length (annotation im) \<le> 1022" "CHR 0x0A \<notin> set (annotation im)"
           "CHR 0x00 \<notin> set (annotation im)"
  shows "status_of (deserialize stof (serialize fmt im []) target) = Normal
     \<and> cout_of (deserialize stof (serialize fmt im []) target) = []
     \<and> image_of (deserialize stof (serialize fmt im []) target)
        = target\<lparr>components := map (\<lambda>component. translate (origin target) (quantize q component))
                                  (components im),
                  annotation := CHR '' '' # annotation im\<rparr>"
proof -
  let ?T = "CHR '' '' # ''annotation'' @ CHR '' '' # to_string_int (int (length (annotation im)))
             @ CHR '' '' # annotation im"
  let ?t0 = "target\<lparr>components := []\<rparr>"
  have s: "serialize fmt im []
           = concat (map (\<lambda>component. serialize_shape fmt component []) (components im)) @ ?T"
    by (simp add: serialize_def serialize_components)
  let ?im1 = "foldl (\<lambda>i component. add_component (quantize q component) i) ?t0 (components im)"
  have 1: "deserialize stof (serialize fmt im []) target
           = deserialize_loop stof
               (good (concat (map (\<lambda>component. serialize_shape fmt component []) (components im)) @ ?T), [])
               ?t0 []"
    by (simp only: deserialize_def istringstream_new_def good_def s)
  obtain w' where 2:
    "deserialize_loop stof
       (good (concat (map (\<lambda>component. serialize_shape fmt component []) (components im)) @ ?T), [])
       ?t0 []
     = deserialize_loop stof (good ?T, w') ?im1 []"
    using loop_components[where fmt=fmt and stof=stof and q=q and T="?T" and w="[]"
        and im="?t0" and lg="[]", OF tok rt ok] by auto
  have 3: "deserialize_loop stof (good ?T, w') ?im1 []
     = (Normal, (\<lparr>rest = [], eofbit = True, failbit = True\<rparr>,
                 to_string_int (int (length (annotation im)))),
        ?im1\<lparr>annotation := CHR '' '' # annotation im\<rparr>, [])"
    by (rule loop_annotation[OF a])
  have "deserialize stof (serialize fmt im []) target
     = (Normal, (\<lparr>rest = [], eofbit = True, failbit = True\<rparr>,
                 to_string_int (int (length (annotation im)))),
        ?im1\<lparr>annotation := CHR '' '' # annotation im\<rparr>, [])"
    by (simp only: 1 2 3)
  then show ?thesis
    by (simp add: status_of_def cout_of_def image_of_def foldl_add_component)
qed

lemma translate_zero: "translate (Vec2 0 0) sh = sh"
  by (cases sh) (simp_all add: vadd_def map_idI)

text \<open>Into a fresh Image with origin (0,0): the components come back with every float
  printed and parsed once, and the annotation with a space in front. When printing and
  parsing gives back every float of the Image, the component list is the same.\<close>

lemma round_trip_fresh:
  assumes "\<And>v. token (fmt v)" and "\<And>v. stof (fmt v) = Inr (q v)"
    and "list_all shape_ok (components im)"
    and "length (annotation im) \<le> 1022" "CHR 0x0A \<notin> set (annotation im)"
        "CHR 0x00 \<notin> set (annotation im)"
  shows "image_of (deserialize stof (serialize fmt im []) (Image_new (Vec2 0 0)))
         = \<lparr>components = map (quantize q) (components im),
            annotation = CHR '' '' # annotation im, origin = Vec2 0 0\<rparr>"
  using round_trip[where fmt=fmt and stof=stof and q=q and target="Image_new (Vec2 0 0)", OF assms]
  by (simp add: Image_new_def translate_zero)

lemma round_trip_components:
  assumes "\<And>v. token (fmt v)" and "\<And>v. stof (fmt v) = Inr (q v)"
    and "list_all shape_ok (components im)"
    and "length (annotation im) \<le> 1022" "CHR 0x0A \<notin> set (annotation im)"
        "CHR 0x00 \<notin> set (annotation im)"
    and fixed: "list_all (\<lambda>component. quantize q component = component) (components im)"
  shows "components (image_of (deserialize stof (serialize fmt im []) (Image_new (Vec2 0 0))))
         = components im"
  using round_trip_fresh[where fmt=fmt and stof=stof and q=q and im=im, OF assms(1-6)] fixed
  by (simp add: list_all_iff map_idI)

text \<open>An instance: a printer and a parser that know the two values 0 and 1, and an Image
  with one circle.\<close>

lemma round_trip_instance:
  "image_of (deserialize (\<lambda>w. if w = ''1.00'' then Inr 1 else Inr 0)
       (serialize (\<lambda>v. if v = 1 then ''1.00'' else ''0.00'')
          \<lparr>components = [Circle (Vec2 0 1) 1 (Color 255 0 0)], annotation = ''hi'', origin = Vec2 0 0\<rparr> [])
       (Image_new (Vec2 0 0)))
   = \<lparr>components = [Circle (Vec2 0 1) 1 (Color 255 0 0)], annotation = '' hi'', origin = Vec2 0 0\<rparr>"
proof -
  let ?fmt = "\<lambda>v::real. if v = 1 then ''1.00'' else ''0.00''"
  let ?stof = "\<lambda>w. if w = ''1.00'' then Inr 1 else (Inr 0 :: exn + real)"
  let ?q = "\<lambda>v::real. if v = 1 then 1 else (0::real)"
  let ?im = "\<lparr>components = [Circle (Vec2 0 1) 1 (Color 255 0 0)], annotation = ''hi'', origin = Vec2 0 0\<rparr>"
  have 1: "\<And>v. token (?fmt v)" by (simp add: token_def isspace_def)
  have 2: "\<And>v. ?stof (?fmt v) = Inr (?q v)" by simp
  have 3: "list_all shape_ok (components ?im)" by (simp add: color_ok_def int_range_def)
  have 4: "length (annotation ?im) \<le> 1022" "CHR 0x0A \<notin> set (annotation ?im)"
    "CHR 0x00 \<notin> set (annotation ?im)" by simp_all
  from round_trip_fresh[where fmt="?fmt" and stof="?stof" and q="?q" and im="?im", OF 1 2 3 4]
  show ?thesis by (simp add: qv_def)
qed

section \<open>Properties of the shapes\<close>

text \<open>\<^verbatim>\<open>Line::bounding_box\<close> on each axis: the bounds are set when the direction is
  negative on that axis, and keep their initial values otherwise.\<close>

lemma Line_bounding_box_x:
  "x_min (bounding_box (Line p d c)) = (if vx d < 0 then to_int (vx p + vx d) else 10000)
   \<and> x_max (bounding_box (Line p d c)) = (if vx d < 0 then to_int (vx p) else - 10000)"
  by (simp add: Let_def vadd_def BoundingBox_new_def)

lemma Line_bounding_box_y:
  "y_min (bounding_box (Line p d c)) = (if vy d < 0 then to_int (vy p + vy d) else 10000)
   \<and> y_max (bounding_box (Line p d c)) = (if vy d < 0 then to_int (vy p) else - 10000)"
  by (simp add: Let_def vadd_def BoundingBox_new_def)

text \<open>C3: \<^verbatim>\<open>Line::bounding_box\<close> should return the box of the two endpoints \<open>P\<close> and \<open>P + D\<close>.
  The code assigns the x bounds only when \<open>P.x + D.x < P.x\<close> and the y bounds only when
  \<open>P.y + D.y < P.y\<close>; there is no other branch. For the line of the demonstration program,
  from (400, 300) with direction (100, 100), the box stays the initial one
  (minima 10000, maxima -10000) and its \<open>x_min\<close> is not 400.\<close>

theorem Line_bounding_box_misses_forward_direction:
  "bounding_box (Line (Vec2 400 300) (Vec2 100 100) c) = BoundingBox_new
   \<and> x_min (bounding_box (Line (Vec2 400 300) (Vec2 100 100) c)) \<noteq> to_int (min 400 (400 + 100))"
  by (simp add: vadd_def BoundingBox_new_def to_int_def)

text \<open>C4 (amended): \<^verbatim>\<open>centralSym(p)\<close> moves the position of a shape (the origin of a Circle
  or an Ellipse, every point of a Polygon, the point of a Line) from \<open>M\<close> to
  \<open>M + 2 (p - M)\<close>, computed as \<open>t = 2 (p - M)\<close> and then \<open>M + t\<close>, and leaves radius,
  direction and colour alone. \<^verbatim>\<open>homothety(p, -1)\<close> is another operation: it computes
  \<open>p + (-1) (M - p)\<close> for the origin of a Circle or an Ellipse and for every point of a
  Polygon, it also multiplies the radius of a Circle or an Ellipse by -1, and it does
  nothing to a Line. Each right-hand side is the expression of the code, operation for
  operation.\<close>

theorem centralSym_and_homothety_formulas:
  "centralSym p (Circle ori r c) = Circle (vadd ori (smul 2 (vsub p ori))) r c
   \<and> centralSym p (Polygon ps c) = Polygon (map (\<lambda>m. vadd m (smul 2 (vsub p m))) ps) c
   \<and> centralSym p (Line pt d c) = Line (vadd pt (smul 2 (vsub p pt))) d c
   \<and> centralSym p (Ellipse ori rv c) = Ellipse (vadd ori (smul 2 (vsub p ori))) rv c
   \<and> homothety_at p (- 1) (Circle ori r c) = Circle (vadd p (smul (- 1) (vsub ori p))) (- r) c
   \<and> homothety_at p (- 1) (Polygon ps c)
       = Polygon (map (\<lambda>m. vadd p (smul (- 1) (vsub m p))) ps) c
   \<and> homothety_at p (- 1) (Line pt d c) = Line pt d c
   \<and> homothety_at p (- 1) (Ellipse ori rv c)
       = Ellipse (vadd p (smul (- 1) (vsub ori p))) (Vec2 (- vx rv) (- vy rv)) c"
  by (simp add: Let_def smul_def[of "- 1" rv])

text \<open>C4 as stated fails: for the unit circle at (0,0) and \<open>p\<close> = (0,0), \<^verbatim>\<open>centralSym\<close>
  keeps the radius 1 and \<^verbatim>\<open>homothety(p, -1)\<close> makes it -1; for a Line, \<^verbatim>\<open>centralSym\<close>
  moves the point and \<^verbatim>\<open>homothety\<close> does not.\<close>

theorem centralSym_homothety_counterexample:
  "centralSym (Vec2 0 0) (Circle (Vec2 0 0) 1 (Color 255 0 0))
     \<noteq> homothety_at (Vec2 0 0) (- 1) (Circle (Vec2 0 0) 1 (Color 255 0 0))
   \<and> centralSym (Vec2 1 0) (Line (Vec2 0 0) (Vec2 1 1) (Color 255 0 0))
     \<noteq> homothety_at (Vec2 1 0) (- 1) (Line (Vec2 0 0) (Vec2 1 1) (Color 255 0 0))"
  by (simp add: vadd_def vsub_def smul_def)

text \<open>In exact arithmetic, rotating a point by the angle whose sine is \<open>s\<close> and cosine \<open>c\<close>,
  then by the opposite angle, gives the point back.\<close>

lemma rotate_point_back:
  assumes "s * s + c * c = 1"
  shows "rotate_point (- s) c p (rotate_point s c p m) = m"
proof -
  define lx where "lx = vx m - vx p"
  define ly where "ly = vy m - vy p"
  have "(lx * c - ly * s) * c - (lx * s + ly * c) * (- s) = lx * (s * s + c * c)"
    by (simp add: algebra_simps)
  then have x: "(lx * c - ly * s) * c - (lx * s + ly * c) * (- s) = lx"
    using assms by simp
  have "(lx * c - ly * s) * (- s) + (lx * s + ly * c) * c = ly * (s * s + c * c)"
    by (simp add: algebra_simps)
  then have y: "(lx * c - ly * s) * (- s) + (lx * s + ly * c) * c = ly"
    using assms by simp
  have "rotate_point (- s) c p (rotate_point s c p m)
        = Vec2 (((lx * c - ly * s) * c - (lx * s + ly * c) * (- s)) + vx p)
               (((lx * c - ly * s) * (- s) + (lx * s + ly * c) * c) + vy p)"
    by (simp add: rotate_point_def Let_def lx_def ly_def)
  also have "\<dots> = Vec2 (lx + vx p) (ly + vy p)"
    by (simp only: x y)
  also have "\<dots> = m"
    by (simp add: lx_def ly_def)
  finally show ?thesis .
qed

lemma rotate_at_back:
  assumes "fsin a * fsin a + fcos a * fcos a = 1"
    and "fsin (- a) = - fsin a" and "fcos (- a) = fcos a"
  shows "rotate_at fsin fcos p (- a) (rotate_at fsin fcos p a sh) = sh"
proof (cases sh)
  case (Circle ori r c)
  then show ?thesis using assms by (simp add: rotate_point_back)
next
  case (Polygon ps c)
  then show ?thesis using assms by (simp add: rotate_point_back o_def)
next
  case (Line pt d c)
  have "vadd (rotate_point s c p pt)
          (vsub (rotate_point s c p (vadd pt d)) (rotate_point s c p pt))
        = rotate_point s c p (vadd pt d)" for s c
    by (simp add: vadd_def vsub_def)
  moreover have "vsub (vadd pt d) pt = d"
    by (simp add: vadd_def vsub_def)
  ultimately show ?thesis using Line assms by (simp add: Let_def rotate_point_back)
next
  case (Ellipse ori rv c)
  then show ?thesis by simp
qed

text \<open>With a centre outside the shape, the exact sine and cosine and exact arithmetic,
  the second rotation undoes the first.\<close>

lemma rotate_back_exact_arithmetic:
  "rotate_at sin cos p (- \<theta>) (rotate_at sin cos p \<theta> sh) = sh"
  by (rule rotate_at_back) (simp_all add: power2_eq_square[symmetric])

text \<open>\<open>rotate_at\<close> is \<open>rotate_ref\<close> for a centre outside the shape.\<close>

lemma rotate_in_place_Elsewhere:
  "rotate_in_place s c (Elsewhere v) fs i = fs[i := rotate_point s c v (fs ! i)]"
  by (cases "i < length fs")
    (simp_all add: rotate_in_place_def rotate_point_def Let_def list_update_beyond)

lemma rotate_in_place_Elsewhere_fun:
  "rotate_in_place s c (Elsewhere v) = (\<lambda>fs i. fs[i := rotate_point s c v (fs ! i)])"
  by (intro ext) (rule rotate_in_place_Elsewhere)

lemma foldl_update_map:
  "k \<le> length xs \<Longrightarrow>
   foldl (\<lambda>fs i. fs[i := f (fs ! i)]) xs [0..<k] = map f (take k xs) @ drop k xs"
proof (induction k)
  case 0
  then show ?case by simp
next
  case (Suc k)
  then have k: "k < length xs" by simp
  have "(map f (take k xs) @ drop k xs)[k := f ((map f (take k xs) @ drop k xs) ! k)]
        = map f (take (Suc k) xs) @ drop (Suc k) xs"
    using k by (simp add: list_update_append nth_append take_Suc_conv_app_nth
        Cons_nth_drop_Suc[symmetric] min_def)
  with Suc show ?case by simp
qed

lemma rotate_ref_Elsewhere:
  "rotate_ref fsin fcos (Elsewhere p) angle sh = Some (rotate_at fsin fcos p angle sh)"
proof (cases sh)
  case (Polygon ps c)
  then show ?thesis by (simp add: rotate_in_place_Elsewhere_fun foldl_update_map)
qed (simp_all add: rotate_in_place_Elsewhere Let_def rotate_point_def)

text \<open>With the shape's own position as the centre, whatever the angle and whatever
  \<^verbatim>\<open>fast_sin\<close> and \<^verbatim>\<open>fast_cos\<close> return: the origin of a Circle and the point of a Line end at
  (0,0); in a Polygon the point that serves as centre ends at (0,0) and the points after
  it turn about (0,0).\<close>

lemma rotate_ref_own_origin:
  "rotate_ref fsin fcos (Own 0) angle (Circle ori r c) = Some (Circle (Vec2 0 0) r c)"
  by (simp add: rotate_in_place_def)

lemma rotate_ref_own_point:
  "\<exists>d'. rotate_ref fsin fcos (Own 0) angle (Line pt d c) = Some (Line (Vec2 0 0) d' c)"
  by (simp add: rotate_in_place_def Let_def)

lemma rotate_ref_own_first_point:
  "rotate_ref fsin fcos (Own 0) angle (Polygon [Vec2 1 0, Vec2 2 0, Vec2 2 1] c)
   = Some (Polygon [Vec2 0 0, Vec2 (2 * fcos angle) (2 * fsin angle),
                    Vec2 (2 * fcos angle - fsin angle) (2 * fsin angle + fcos angle)] c)"
  by (simp add: rotate_in_place_def Let_def upt_rec numeral_eq_Suc)

lemma rotate_ref_keeps_color_and_type:
  "rotate_ref fsin fcos p angle s = Some s' \<Longrightarrow> m_color s' = m_color s \<and> m_type s' = m_type s"
  by (cases s) (auto simp: Let_def split: if_splits)

text \<open>C6: \<^verbatim>\<open>rotate(p, \<theta>)\<close> followed by \<^verbatim>\<open>rotate(p, -\<theta>)\<close> should give the shape back for every
  \<open>p\<close>. For the unit circle at (1,0) and \<open>p\<close> its own \<^verbatim>\<open>origin()\<close>, the first call leaves the
  origin at (0,0): \<^verbatim>\<open>m_origin.x -= p.x\<close> also changes \<open>p\<close>, which is read again afterwards.
  The second call leaves it there, so the circle is not back at (1,0).\<close>

theorem rotate_about_own_origin_is_not_undone:
  "rotate_ref fsin fcos (Own 0) \<theta> (Circle (Vec2 1 0) 1 c) = Some (Circle (Vec2 0 0) 1 c)
   \<and> rotate_ref fsin fcos (Own 0) (- \<theta>) (Circle (Vec2 0 0) 1 c) = Some (Circle (Vec2 0 0) 1 c)
   \<and> Circle (Vec2 0 0) 1 c \<noteq> Circle (Vec2 1 0) 1 c"
  by (simp add: rotate_in_place_def)

text \<open>C7: \<^verbatim>\<open>add_component(s)\<close> translates \<open>s\<close> by the origin of the image and appends it;
  annotation and origin stay. With origin (10,0), a circle of radius 1 at (0,0) is stored
  with its centre at (10,0).\<close>

theorem add_component_translates_then_appends:
  "components (add_component s im) = components im @ [translate (origin im) s]
   \<and> annotation (add_component s im) = annotation im
   \<and> origin (add_component s im) = origin im
   \<and> components (add_component (Circle (Vec2 0 0) 1 c) (Image_new (Vec2 10 0)))
       = [Circle (Vec2 10 0) 1 c]"
  by (simp add: add_component_def Image_new_def vadd_def)

text \<open>C8: none of the seven transformations changes the colour or the type tag of a
  shape.\<close>

theorem transforms_keep_color_and_type:
  "m_color (translate v s) = m_color s \<and> m_type (translate v s) = m_type s
   \<and> m_color (homothety ratio s) = m_color s \<and> m_type (homothety ratio s) = m_type s
   \<and> m_color (homothety_at p ratio s) = m_color s
   \<and> m_type (homothety_at p ratio s) = m_type s
   \<and> m_color (rotate_self fsin fcos angle s) = m_color s
   \<and> m_type (rotate_self fsin fcos angle s) = m_type s
   \<and> m_color (rotate_at fsin fcos p angle s) = m_color s
   \<and> m_type (rotate_at fsin fcos p angle s) = m_type s
   \<and> m_color (centralSym p s) = m_color s \<and> m_type (centralSym p s) = m_type s
   \<and> m_color (axialSym p d s) = m_color s \<and> m_type (axialSym p d s) = m_type s"
  by (cases s) (simp_all add: Let_def)

text \<open>C9: an Image without components has the initial bounding box, so its width and
  height are both -20000: the area is 400000000 and the perimeter -80000.\<close>

theorem empty_Image_metrics:
  "Image_bounding_box (im\<lparr>components := []\<rparr>)
     = \<lparr>x_max = - 10000, x_min = 10000, y_max = - 10000, y_min = 10000\<rparr>
   \<and> Image_area (im\<lparr>components := []\<rparr>) = 400000000
   \<and> Image_perimeter (im\<lparr>components := []\<rparr>) = - 80000"
  by (simp add: Image_bounding_box_def Image_area_def Image_perimeter_def BoundingBox_new_def)

text \<open>C10: the equality of two Polygons, two Lines or two Ellipses does not look at the
  colours: its value is the same whatever the four colours are, and with a reflexive
  \<^verbatim>\<open>Vec2\<close> equality two shapes with the same geometry are equal even in different colours.
  Two Circles with the same origin and radius are equal exactly when their colours are.\<close>

theorem equality_ignores_color_except_Circle:
  "(\<forall>v. veq v v) \<longrightarrow>
     Polygon_eq veq (ps, c1) (ps, c2) \<and> Line_eq veq (pt, d, c1) (pt, d, c2)
     \<and> Ellipse_eq veq (ori, rv, c1) (ori, rv, c2)
     \<and> Polygon_eq veq (ps, c1) (qs, c2) = Polygon_eq veq (ps, c3) (qs, c4)
     \<and> Line_eq veq (pt, d, c1) (pt', d', c2) = Line_eq veq (pt, d, c3) (pt', d', c4)
     \<and> Ellipse_eq veq (ori, rv, c1) (ori', rv', c2) = Ellipse_eq veq (ori, rv, c3) (ori', rv', c4)
     \<and> Circle_eq veq ceq (ori, r, c1) (ori, r, c2) = ceq c1 c2"
  by (auto simp: Polygon_eq_def Line_eq_def Ellipse_eq_def Circle_eq_def list_all2_same)

theorem equality_ignores_color_except_Circle_witness:
  "(\<forall>v::vec2. v = v)
   \<and> Polygon_eq (=) ([Vec2 0 0, Vec2 1 0, Vec2 1 1], Color 255 0 0)
        ([Vec2 0 0, Vec2 1 0, Vec2 1 1], Color 0 0 255)
   \<and> Line_eq (=) (Vec2 0 0, Vec2 1 1, Color 255 0 0) (Vec2 0 0, Vec2 1 1, Color 0 0 255)
   \<and> Ellipse_eq (=) (Vec2 0 0, Vec2 2 1, Color 255 0 0) (Vec2 0 0, Vec2 2 1, Color 0 0 255)
   \<and> \<not> Circle_eq (=) (=) (Vec2 0 0, 1, Color 255 0 0) (Vec2 0 0, 1, Color 0 0 255)"
  using equality_ignores_color_except_Circle [of "(=)" "[Vec2 0 0, Vec2 1 0, Vec2 1 1]"
      "Color 255 0 0" "Color 0 0 255" "Vec2 0 0" "Vec2 1 1" "Vec2 0 0" "Vec2 2 1"
      "[]" "Color 0 0 0" "Color 0 0 0" "Vec2 0 0" "Vec2 0 0" "Vec2 0 0" "Vec2 0 0" "(=)" 1]
  by simp

section \<open>Properties of serialize and deserialize\<close>

lemmas parse_defs = deserialize_def deserialize_loop.simps record_body_def
  annotation_clause_def try_add_def parse_circle_def parse_polygon_def parse_line_def
  parse_ellipse_def read_color_def read_int_def read_float_def and_then_def extract_word_def
  getline_def stoi_def ShapeStringToEnum_def shapes_def Derivedtype_of_nat_def isspace_def
  isdigit_def digits_value_def digit_value_def istringstream_new_def Image_new_def
  annotate_def status_of_def image_of_def cout_of_def add_component_def

text \<open>C1: serializing an Image and deserializing the text into a fresh Image should give
  the components and the annotation back. For an Image without components whose
  annotation is \<open>hello\<close>, the text is \<open> annotation 5 hello\<close>; \<^verbatim>\<open>deserialize\<close> ends normally
  and the annotation it stores is \<open> hello\<close>, with the separating space in front.\<close>

theorem annotation_round_trip_gains_a_space:
  "serialize fmt (annotate ''hello'' (Image_new (Vec2 0 0))) [] = '' annotation 5 hello''
   \<and> status_of (deserialize stof (serialize fmt (annotate ''hello'' (Image_new (Vec2 0 0))) [])
        (Image_new (Vec2 0 0))) = Normal
   \<and> image_of (deserialize stof (serialize fmt (annotate ''hello'' (Image_new (Vec2 0 0))) [])
        (Image_new (Vec2 0 0)))
      = \<lparr>components = [], annotation = '' hello'', origin = Vec2 0 0\<rparr>"
  by code_simp

text \<open>When the handler of a shape case catches the exception of a malformed token, the
  stream stands right after that token: the rest of the record is still to be read by the
  loop.\<close>

lemma caught_exception_leaves_rest_of_record:
  assumes "token t" and "spaced R" and "stof t = Inl e"
  shows "record_body stof (good (CHR '' '' # t @ R), ''circle'') im lg
         = (Normal, (good R, t), im, lg @ [e])"
  using assms
  by (simp add: record_body_def keyword_enums try_add_def parse_circle_def and_then_def
      read_float_token)

text \<open>C2: a record with a malformed number should be skipped with a diagnostic, without
  an exception leaving \<^verbatim>\<open>deserialize\<close>, and the other records should still be read. In
  \<open>polygon 0 255 foo 0 line 1 2 3 4 5 6 7\<close> the handler of the polygon case catches the
  exception for \<open>foo\<close> and prints its diagnostic; the next token \<open>0\<close> is then taken for a
  keyword, reaches the annotation case, and \<^verbatim>\<open>std::stoi("line")\<close> throws outside any
  \<^verbatim>\<open>try\<close> block: the exception leaves \<^verbatim>\<open>deserialize\<close> and the line is never read.\<close>

theorem malformed_record_then_uncaught_exception:
  "deserialize stof ''polygon 0 255 foo 0 line 1 2 3 4 5 6 7'' im
   = (Raised invalid_argument,
      (\<lparr>rest = '' 1 2 3 4 5 6 7'', eofbit = False, failbit = False\<rparr>, ''line''),
      im\<lparr>components := []\<rparr>, [invalid_argument])"
  by (simp add: parse_defs Let_def)

text \<open>The example of the specification, followed by a well-formed circle: no exception, but
  the rest of the bad record overwrites the annotation, \<^verbatim>\<open>getline\<close> sets the fail bit and
  the loop ends before the second circle.\<close>

lemma malformed_circle_loses_following_record:
  assumes "stof ''foo'' = Inl invalid_argument"
  shows "deserialize stof ''circle foo 0 5 255 0 0 circle 1 2 3 4 5 6'' im
         = (Normal,
            (\<lparr>rest = '' 0 circle 1 2 3 4 5 6'', eofbit = False, failbit = True\<rparr>, ''5''),
            im\<lparr>components := [], annotation := '' 255 0''\<rparr>, [invalid_argument])"
  using assms by (simp add: parse_defs Let_def)

text \<open>The same with a circle whose green field is malformed, for any \<^verbatim>\<open>std::stof\<close> that
  parses \<open>0\<close> and \<open>5\<close>.\<close>

lemma malformed_circle_then_uncaught_exception:
  assumes "stof ''0'' = Inr 0" and "stof ''5'' = Inr 5"
  shows "deserialize stof ''circle 0 0 5 255 foo 0 line 1 2 3 4 5 6 7'' im
         = (Raised invalid_argument,
            (\<lparr>rest = '' 1 2 3 4 5 6 7'', eofbit = False, failbit = False\<rparr>, ''line''),
            im\<lparr>components := []\<rparr>, [invalid_argument])"
  using assms by (simp add: parse_defs Let_def)

lemma not_a_shape_keyword: "w \<notin> set shapes \<Longrightarrow> ShapeStringToEnum w = END_ENUM"
  by (auto simp: shapes_def ShapeStringToEnum_def)

text \<open>Whatever the word, a leading token that is none of the four shape keywords runs the
  annotation case. It adds no component, keeps the origin and prints no diagnostic; the
  next token goes to \<^verbatim>\<open>std::stoi\<close> outside any \<^verbatim>\<open>try\<close> block, and when it is a number \<open>n\<close>
  in range the text that \<^verbatim>\<open>getline(buffer, n + 2)\<close> returns becomes the annotation.\<close>

lemma unknown_keyword_runs_annotation_case:
  assumes "w \<notin> set shapes"
  shows "components (image_of (record_body stof (b, w) im lg)) = components im
     \<and> origin (image_of (record_body stof (b, w) im lg)) = origin im
     \<and> cout_of (record_body stof (b, w) im lg) = lg
     \<and> (\<forall>e. stoi (snd (extract_word b w)) = Inl e \<longrightarrow>
            status_of (record_body stof (b, w) im lg) = Raised e
            \<and> image_of (record_body stof (b, w) im lg) = im)
     \<and> (\<forall>n b2 t. stoi (snd (extract_word b w)) = Inr n \<longrightarrow> n + 2 \<le> 2147483647 \<longrightarrow>
            getline (fst (extract_word b w)) (n + 2) = Some (b2, t) \<longrightarrow>
            record_body stof (b, w) im lg
              = (Normal, (b2, snd (extract_word b w)), im\<lparr>annotation := t\<rparr>, lg))"
  using not_a_shape_keyword[OF assms]
  by (auto simp: record_body_def annotation_clause_def image_of_def cout_of_def status_of_def
      annotate_def split: prod.splits sum.splits option.splits)

text \<open>C5: a leading token that is no shape keyword should be dropped and change nothing
  else. \<^verbatim>\<open>deserialize("foo 3 abc")\<close> takes \<open>foo\<close> for the annotation keyword, reads \<open>3\<close> as the
  length and stores \<open> abc\<close> as the annotation, whatever the annotation was;
  \<^verbatim>\<open>deserialize("foo bar")\<close> ends with the exception of \<^verbatim>\<open>std::stoi("bar")\<close>, which no handler
  catches.\<close>

theorem unknown_keyword_overwrites_annotation:
  "deserialize stof ''foo 3 abc'' im
   = (Normal, (\<lparr>rest = [], eofbit = True, failbit = True\<rparr>, ''3''),
      im\<lparr>components := [], annotation := '' abc''\<rparr>, [])
   \<and> deserialize stof ''foo bar'' im
   = (Raised invalid_argument, (\<lparr>rest = [], eofbit = True, failbit = False\<rparr>, ''bar''),
      im\<lparr>components := []\<rparr>, [])"
  by (simp add: parse_defs Let_def)

end
